theory Spec2Isabelle
  imports Complex_Main "HOL-Library.Word"
begin

section \<open>Client connection hook (apps/web/hooks/useWebSocket.ts)\<close>

text \<open>
  The hook keeps React state (\<open>connectionStatus\<close>, \<open>error\<close>) and refs (\<open>wsRef\<close>,
  \<open>reconnectTimeoutRef\<close>, \<open>reconnectAttemptsRef\<close>, \<open>isManualDisconnectRef\<close>).
  They are the fields of one record that every handler takes and returns.
  The browser side that the handlers act on is part of the record too: \<open>timers\<close> holds the
  delays of the timers armed with \<open>setTimeout\<close> and not cleared, and \<open>callbacks\<close> the
  caller's callbacks in the order they were invoked.
\<close>

datatype WSConnectionStatus = connecting | connected | disconnected | reconnecting | error

datatype ReadyState = CONNECTING | OPEN | CLOSING | CLOSED

datatype ws_callback = OnOpen | OnClose | OnError

record ws_hook =
  connectionStatus :: WSConnectionStatus
  ws_error :: "string option"
  wsRef :: "ReadyState option"
  reconnectTimeoutRef :: "nat option"
  reconnectAttemptsRef :: nat
  isManualDisconnectRef :: bool
  timers :: "nat list"
  callbacks :: "ws_callback list"

text \<open>\<open>CONNECTION_CONFIG\<close> of packages/shared/constants.\<close>

definition RECONNECT_ATTEMPTS :: nat where
  "RECONNECT_ATTEMPTS = 5"

definition RECONNECT_INTERVAL :: nat where
  "RECONNECT_INTERVAL = 2000"

text \<open>The state of \<open>useState\<close>/\<open>useRef\<close> at the first render.\<close>

definition ws_initial :: ws_hook where
  "ws_initial = \<lparr>connectionStatus = disconnected, ws_error = None, wsRef = None,
     reconnectTimeoutRef = None, reconnectAttemptsRef = 0, isManualDisconnectRef = False,
     timers = [], callbacks = []\<rparr>"

definition clearReconnectTimeout :: "ws_hook \<Rightarrow> ws_hook" where
  "clearReconnectTimeout s =
     (case reconnectTimeoutRef s of
        None \<Rightarrow> s
      | Some d \<Rightarrow> s\<lparr>timers := remove1 d (timers s), reconnectTimeoutRef := None\<rparr>)"

text \<open>
  \<open>ws.onopen\<close>. The browser has moved the socket to \<open>OPEN\<close> when it fires the event.
\<close>

definition onopen :: "ws_hook \<Rightarrow> ws_hook" where
  "onopen s =
     (let s1 = s\<lparr>connectionStatus := connected, ws_error := None,
                  wsRef := map_option (\<lambda>_. OPEN) (wsRef s),
                  reconnectAttemptsRef := 0\<rparr>;
          s2 = clearReconnectTimeout s1
      in s2\<lparr>callbacks := callbacks s2 @ [OnOpen]\<rparr>)"

definition permanentErrorCodes :: "nat list" where
  "permanentErrorCodes = [1002, 1003, 1005]"

definition shouldReconnect :: "ws_hook \<Rightarrow> nat \<Rightarrow> bool" where
  "shouldReconnect s code \<longleftrightarrow>
     \<not> isManualDisconnectRef s
     \<and> reconnectAttemptsRef s < RECONNECT_ATTEMPTS
     \<and> code \<notin> set permanentErrorCodes"

text \<open>
  \<open>Math.min(RECONNECT_INTERVAL * Math.pow(2, attempts - 1), 30000)\<close>, evaluated after the
  counter was incremented, so \<open>attempts\<close> is at least 1 there.
\<close>

definition backoffDelay :: "nat \<Rightarrow> nat" where
  "backoffDelay attempts = min (RECONNECT_INTERVAL * 2 ^ (attempts - 1)) 30000"

text \<open>\<open>ws.onclose\<close>, with the close code of the event.\<close>

definition onclose :: "nat \<Rightarrow> ws_hook \<Rightarrow> ws_hook" where
  "onclose code s =
     (let s1 = s\<lparr>connectionStatus := disconnected, wsRef := None,
                  callbacks := callbacks s @ [OnClose]\<rparr>
      in if shouldReconnect s1 code then
           let attempts = reconnectAttemptsRef s1 + 1;
               d = backoffDelay attempts
           in s1\<lparr>connectionStatus := reconnecting, reconnectAttemptsRef := attempts,
                  reconnectTimeoutRef := Some d, timers := timers s1 @ [d]\<rparr>
         else if reconnectAttemptsRef s1 \<ge> RECONNECT_ATTEMPTS then
           s1\<lparr>ws_error := Some ''Connection failed after multiple attempts''\<rparr>
         else s1)"

definition onerror :: "ws_hook \<Rightarrow> ws_hook" where
  "onerror s = s\<lparr>connectionStatus := error, ws_error := Some ''Connection failed'',
                  callbacks := callbacks s @ [OnError]\<rparr>"

text \<open>
  \<open>connect\<close>. \<open>new WebSocket(url)\<close> may raise; \<open>ctor\<close> is what the constructor did:
  \<open>None\<close> when it returned a socket, the message of the exception otherwise.
\<close>

definition ws_connect :: "string option \<Rightarrow> ws_hook \<Rightarrow> ws_hook" where
  "ws_connect ctor s =
     (if wsRef s = Some OPEN then s
      else
        let s1 = s\<lparr>wsRef := None, connectionStatus := connecting, ws_error := None,
                     isManualDisconnectRef := False\<rparr>
        in case ctor of
             None \<Rightarrow> s1\<lparr>wsRef := Some CONNECTING\<rparr>
           | Some msg \<Rightarrow>
               s1\<lparr>connectionStatus := error,
                    ws_error := Some (''Failed to initialize connection: '' @ msg)\<rparr>)"

definition ws_disconnect :: "ws_hook \<Rightarrow> ws_hook" where
  "ws_disconnect s =
     (let s1 = clearReconnectTimeout (s\<lparr>isManualDisconnectRef := True\<rparr>)
      in s1\<lparr>wsRef := None, connectionStatus := disconnected, ws_error := None\<rparr>)"

text \<open>
  The close codes of RFC 6455 that the claims name. The server of this repository
  closes with 1008 when authentication fails (handlers/connection.ts).
\<close>

definition PROTOCOL_ERROR :: nat where
  "PROTOCOL_ERROR = 1002"

definition UNSUPPORTED_DATA :: nat where
  "UNSUPPORTED_DATA = 1003"

definition NO_STATUS :: nat where
  "NO_STATUS = 1005"

definition POLICY_VIOLATION :: nat where
  "POLICY_VIOLATION = 1008"

text \<open>A reconnect was scheduled by a handler when it armed a timer.\<close>

definition schedules_reconnect :: "ws_hook \<Rightarrow> ws_hook \<Rightarrow> bool" where
  "schedules_reconnect s s' \<longleftrightarrow> length (timers s') = Suc (length (timers s))"

section \<open>Session registry (apps/ws-server/src/services/session.ts)\<close>

text \<open>
  A \<open>Date\<close> is its number of milliseconds since the epoch. Every operation that reads the
  clock takes the instant it reads as \<open>now\<close>; \<open>createSession\<close> also takes the identifier
  that \<open>generateSessionId\<close> produced. Logging is left out.
\<close>

datatype session_status = active | inactive | ended

record Session =
  session_id :: string
  userId :: string
  connectionId :: string
  createdAt :: int
  lastActivity :: int
  status :: session_status

record SessionService =
  sessions :: "string \<rightharpoonup> Session"

definition sessionTimeout :: int where
  "sessionTimeout = 30 * 60 * 1000"

definition createSession ::
    "string \<Rightarrow> int \<Rightarrow> string \<Rightarrow> string \<Rightarrow> SessionService \<Rightarrow> string \<times> SessionService" where
  "createSession sessionId now uid cid svc =
     (let session = \<lparr>session_id = sessionId, userId = uid, connectionId = cid,
                      createdAt = now, lastActivity = now, status = active\<rparr>
      in (sessionId, svc\<lparr>sessions := (sessions svc)(sessionId \<mapsto> session)\<rparr>))"

definition isSessionExpired :: "int \<Rightarrow> Session \<Rightarrow> bool" where
  "isSessionExpired now session \<longleftrightarrow> now - lastActivity session > sessionTimeout"

text \<open>
  \<open>endSession\<close> marks the stored object \<open>ended\<close> and deletes it from the map; the mark is on
  an object that the registry no longer holds.
\<close>

definition endSession :: "string \<Rightarrow> SessionService \<Rightarrow> SessionService" where
  "endSession sessionId svc =
     (case sessions svc sessionId of
        None \<Rightarrow> svc
      | Some session \<Rightarrow> svc\<lparr>sessions := (sessions svc)(sessionId := None)\<rparr>)"

definition getSession :: "int \<Rightarrow> string \<Rightarrow> SessionService \<Rightarrow> Session option \<times> SessionService" where
  "getSession now sessionId svc =
     (case sessions svc sessionId of
        None \<Rightarrow> (None, svc)
      | Some session \<Rightarrow>
          if isSessionExpired now session then (None, endSession sessionId svc)
          else (Some session, svc))"

definition updateActivity :: "int \<Rightarrow> string \<Rightarrow> SessionService \<Rightarrow> SessionService" where
  "updateActivity now sessionId svc =
     (case sessions svc sessionId of
        None \<Rightarrow> svc
      | Some session \<Rightarrow>
          svc\<lparr>sessions := (sessions svc)(sessionId \<mapsto> session\<lparr>lastActivity := now\<rparr>)\<rparr>)"

text \<open>
  \<open>cleanupExpiredSessions\<close> collects the expired identifiers and ends each; on the map this
  removes exactly the expired entries.
\<close>

definition cleanupExpiredSessions :: "int \<Rightarrow> SessionService \<Rightarrow> SessionService" where
  "cleanupExpiredSessions now svc =
     svc\<lparr>sessions := (\<lambda>k. case sessions svc k of
                           None \<Rightarrow> None
                         | Some session \<Rightarrow> if isSessionExpired now session then None
                                           else Some session)\<rparr>"

section \<open>JSON values and exceptions on the server\<close>

text \<open>
  What \<open>JSON.parse\<close> returns. A number is kept as the text JavaScript prints for it (zero
  prints as \<open>0\<close>); the fields of an object are in insertion order with distinct keys.
  \<open>undefined\<close> is \<open>None\<close> of \<open>json option\<close>.
\<close>

datatype json =
    JNull
  | JBool bool
  | JNum string
  | JStr string
  | JArr "json list"
  | JObj "(string \<times> json) list"

datatype exn = Error string | TypeError string | RangeError string

fun truthy :: "json \<Rightarrow> bool" where
  "truthy JNull = False"
| "truthy (JBool b) = b"
| "truthy (JNum s) = (s \<noteq> ''0'')"
| "truthy (JStr s) = (s \<noteq> [])"
| "truthy (JArr xs) = True"
| "truthy (JObj fs) = True"

fun truthy_opt :: "json option \<Rightarrow> bool" where
  "truthy_opt None = False"
| "truthy_opt (Some v) = truthy v"

text \<open>
  \<open>v.k\<close> for a value \<open>v\<close> that is neither null nor undefined, and \<open>v?.k\<close> for any value.
  The names read by the handlers (\<open>type\<close>, \<open>payload\<close>, \<open>text\<close>, \<open>audio\<close>, \<open>event_id\<close>) are
  own properties of objects only. Reading a property of null raises; the callers test for
  null before they use \<open>get_prop\<close>.
\<close>

fun get_prop :: "json \<Rightarrow> string \<Rightarrow> json option" where
  "get_prop (JObj fs) k = map_of fs k"
| "get_prop v k = None"

fun opt_prop :: "json option \<Rightarrow> string \<Rightarrow> json option" where
  "opt_prop (Some v) k = get_prop v k"
| "opt_prop None k = None"

text \<open>Assignment \<open>o.k = v\<close> on an object: in place when the key exists, appended otherwise.\<close>

fun set_prop :: "string \<Rightarrow> json \<Rightarrow> (string \<times> json) list \<Rightarrow> (string \<times> json) list" where
  "set_prop k v [] = [(k, v)]"
| "set_prop k v ((k', v') # fs) = (if k' = k then (k, v) # fs else (k', v') # set_prop k v fs)"

fun join_comma :: "string list \<Rightarrow> string" where
  "join_comma [] = []"
| "join_comma [x] = x"
| "join_comma (x # y # ys) = x @ '','' @ join_comma (y # ys)"

text \<open>
  The text a template literal puts for a value (\<open>String(v)\<close>), or \<open>None\<close> when the
  conversion raises \<open>TypeError\<close>: an object that has an own property \<open>toString\<close> (which is
  never callable in parsed JSON) has no primitive value. An array joins its elements, null
  counting as the empty string, and raises when an element does.
\<close>

fun js_String :: "json \<Rightarrow> string option" where
  "js_String JNull = Some ''null''"
| "js_String (JBool b) = Some (if b then ''true'' else ''false'')"
| "js_String (JNum s) = Some s"
| "js_String (JStr s) = Some s"
| "js_String (JArr xs) =
     map_option join_comma (those (map (\<lambda>x. if x = JNull then Some [] else js_String x) xs))"
| "js_String (JObj fs) = (if ''toString'' \<in> fst ` set fs then None else Some ''[object Object]'')"

fun js_String_opt :: "json option \<Rightarrow> string option" where
  "js_String_opt None = Some ''undefined''"
| "js_String_opt (Some v) = js_String v"

section \<open>Upstream realtime client (services/openai-realtime.ts)\<close>

text \<open>
  The service object holds its transport (\<open>ws\<close>), the upstream session id and the
  \<open>isConnected\<close> flag. The transport is outside the repository: of the socket the model keeps
  whether its \<open>send\<close> raises, and \<open>upstream\<close> lists what the service did on its transport, in
  order. \<open>eventHandlers\<close> says whether the callbacks \<open>onOpenAIEvent\<close> and \<open>onOpenAIError\<close>
  are set. \<open>session_config\<close> is the \<open>session\<close> object that \<open>initializeSession\<close> builds from the
  configuration. Event identifiers (\<open>event_<time>_<random>\<close>) are passed in by the caller.
\<close>

datatype upstream_ws = UpstreamWS (send_raises: bool)

datatype upstream_action = UpSend json | UpClose

record OpenAIRealtimeService =
  ws :: "upstream_ws option"
  sessionId :: "string option"
  eventHandlers :: bool
  isConnected :: bool
  session_config :: json
  upstream :: "upstream_action list"

definition new_OpenAIRealtimeService :: "json \<Rightarrow> OpenAIRealtimeService" where
  "new_OpenAIRealtimeService cfg =
     \<lparr>ws = None, sessionId = None, eventHandlers = False, isConnected = False,
      session_config = cfg, upstream = []\<rparr>"

text \<open>
  \<open>setEventHandlers\<close>, as the gateway calls it: with both callbacks of the proxy.
\<close>

definition setEventHandlers :: "OpenAIRealtimeService \<Rightarrow> OpenAIRealtimeService" where
  "setEventHandlers svc = svc\<lparr>eventHandlers := True\<rparr>"

text \<open>
  \<open>if (!event.event_id) event.event_id = ...\<close>. The module is strict code, so the assignment
  raises on a primitive; a property set on an array is not serialised by \<open>JSON.stringify\<close>.
\<close>

fun add_event_id :: "string \<Rightarrow> json \<Rightarrow> exn + json" where
  "add_event_id eid (JObj fs) =
     (if truthy_opt (map_of fs ''event_id'') then Inr (JObj fs)
      else Inr (JObj (set_prop ''event_id'' (JStr eid) fs)))"
| "add_event_id eid (JArr xs) = Inr (JArr xs)"
| "add_event_id eid JNull = Inl (TypeError ''Cannot read properties of null'')"
| "add_event_id eid v = Inl (TypeError ''Cannot create property event_id'')"

text \<open>
  \<open>sendEvent\<close>. After \<open>ws.send\<close> the event is logged under the name
  \<open>`client.${event.type}`\<close>; when that conversion raises, the event has been sent and the
  \<open>catch\<close> rethrows.
\<close>

definition sendEvent ::
    "string \<Rightarrow> json \<Rightarrow> OpenAIRealtimeService \<Rightarrow> (exn + unit) \<times> OpenAIRealtimeService" where
  "sendEvent eid event svc =
     (case ws svc of
        None \<Rightarrow> (Inl (Error ''Not connected to OpenAI Realtime API''), svc)
      | Some sock \<Rightarrow>
          if \<not> isConnected svc then (Inl (Error ''Not connected to OpenAI Realtime API''), svc)
          else case add_event_id eid event of
                 Inl e \<Rightarrow> (Inl e, svc)
               | Inr ev \<Rightarrow>
                   if send_raises sock then (Inl (Error ''WebSocket send failed''), svc)
                   else
                     let svc' = svc\<lparr>upstream := upstream svc @ [UpSend ev]\<rparr>
                     in case js_String_opt (get_prop ev ''type'') of
                          None \<Rightarrow>
                            (Inl (TypeError ''Cannot convert object to primitive value''), svc')
                        | Some name \<Rightarrow> (Inr (), svc'))"

text \<open>\<open>createResponse(config?)\<close>: only the fields of \<open>config\<close> that are set are copied.\<close>

record response_config =
  modalities :: "string list option"
  instructions :: "string option"
  voice :: "string option"
  temperature :: "string option"
  maxOutputTokens :: "string option"

definition response_fields :: "response_config \<Rightarrow> (string \<times> json) list" where
  "response_fields c =
     (case modalities c of Some m \<Rightarrow> [(''modalities'', JArr (map JStr m))] | None \<Rightarrow> [])
     @ (case instructions c of
          Some i \<Rightarrow> (if i \<noteq> [] then [(''instructions'', JStr i)] else []) | None \<Rightarrow> [])
     @ (case voice c of Some v \<Rightarrow> (if v \<noteq> [] then [(''voice'', JStr v)] else []) | None \<Rightarrow> [])
     @ (case temperature c of Some t \<Rightarrow> [(''temperature'', JNum t)] | None \<Rightarrow> [])
     @ (case maxOutputTokens c of
          Some n \<Rightarrow> (if n \<noteq> ''0'' then [(''max_response_output_tokens'', JNum n)] else [])
        | None \<Rightarrow> [])"

definition createResponse ::
    "string \<Rightarrow> response_config option \<Rightarrow> OpenAIRealtimeService
      \<Rightarrow> (exn + unit) \<times> OpenAIRealtimeService" where
  "createResponse eid config svc =
     sendEvent eid
       (JObj ((''type'', JStr ''response.create'')
              # (case config of None \<Rightarrow> []
                 | Some c \<Rightarrow> [(''response'', JObj (response_fields c))])))
       svc"

text \<open>
  \<open>sendTextMessage(text)\<close>: the conversation item, then the response request. The legacy
  handler passes whatever truthy value the frame had under \<open>text\<close>.
\<close>

definition service_sendTextMessage ::
    "string \<Rightarrow> string \<Rightarrow> json \<Rightarrow> OpenAIRealtimeService
      \<Rightarrow> (exn + unit) \<times> OpenAIRealtimeService" where
  "service_sendTextMessage eid1 eid2 text svc =
     (case sendEvent eid1
             (JObj [(''type'', JStr ''conversation.item.create''),
                    (''item'', JObj [(''type'', JStr ''message''), (''role'', JStr ''user''),
                       (''content'', JArr [JObj [(''type'', JStr ''input_text''),
                                                 (''text'', text)]])])])
             svc of
        (Inl e, svc') \<Rightarrow> (Inl e, svc')
      | (Inr u, svc') \<Rightarrow> createResponse eid2 None svc')"

text \<open>
  \<open>typeof audioData === 'string' ? audioData : audioData.toString('base64')\<close> on the truthy
  JSON values that can reach it: a number rejects the radix; a boolean and an array ignore
  the argument, and an array raises when one of its elements has no text; an object with
  an own \<open>toString\<close> has nothing to call there.
\<close>

fun audio_base64 :: "json \<Rightarrow> exn + string" where
  "audio_base64 (JStr s) = Inr s"
| "audio_base64 (JNum n) = Inl (RangeError ''toString() radix must be between 2 and 36'')"
| "audio_base64 JNull = Inl (TypeError ''Cannot read properties of null'')"
| "audio_base64 (JObj fs) =
     (case js_String (JObj fs) of
        None \<Rightarrow> Inl (TypeError ''audioData.toString is not a function'')
      | Some s \<Rightarrow> Inr s)"
| "audio_base64 v =
     (case js_String v of
        None \<Rightarrow> Inl (TypeError ''Cannot convert object to primitive value'')
      | Some s \<Rightarrow> Inr s)"

definition sendAudioData ::
    "string \<Rightarrow> json \<Rightarrow> OpenAIRealtimeService \<Rightarrow> (exn + unit) \<times> OpenAIRealtimeService" where
  "sendAudioData eid audioData svc =
     (case audio_base64 audioData of
        Inl e \<Rightarrow> (Inl e, svc)
      | Inr base64Audio \<Rightarrow>
          if base64Audio = [] then (Inl (Error ''Audio data is empty''), svc)
          else sendEvent eid
                 (JObj [(''type'', JStr ''input_audio_buffer.append''),
                        (''audio'', JStr base64Audio)])
                 svc)"

definition commitAudioBuffer ::
    "string \<Rightarrow> string \<Rightarrow> OpenAIRealtimeService \<Rightarrow> (exn + unit) \<times> OpenAIRealtimeService" where
  "commitAudioBuffer eid1 eid2 svc =
     (case sendEvent eid1 (JObj [(''type'', JStr ''input_audio_buffer.commit'')]) svc of
        (Inl e, svc') \<Rightarrow> (Inl e, svc')
      | (Inr u, svc') \<Rightarrow> createResponse eid2 None svc')"

definition clearAudioBuffer ::
    "string \<Rightarrow> OpenAIRealtimeService \<Rightarrow> (exn + unit) \<times> OpenAIRealtimeService" where
  "clearAudioBuffer eid svc =
     sendEvent eid (JObj [(''type'', JStr ''input_audio_buffer.clear'')]) svc"

text \<open>
  \<open>connect()\<close>. What happens outside the process is the argument \<open>outcome\<close>: the API key
  is rejected before a socket is made, the socket emits \<open>error\<close> (with the error as it is
  serialised), the handshake times out, or the socket opens (with the flag of the opened
  socket); after an open, \<open>initializeSession\<close> sends \<open>session.update\<close>. An \<open>error\<close> event runs
  the listener of \<open>setupWebSocketHandlers\<close> first, which hands the error to
  \<open>onOpenAIError\<close> if that is set, and then the listener that rejects. The result holds the
  errors handed to \<open>onOpenAIError\<close>.
\<close>

datatype connect_outcome =
    ApiKeyInvalid
  | HandshakeFailed json
  | HandshakeTimeout
  | Opened bool

definition initializeSession ::
    "string \<Rightarrow> OpenAIRealtimeService \<Rightarrow> (exn + unit) \<times> OpenAIRealtimeService" where
  "initializeSession eid svc =
     sendEvent eid (JObj [(''type'', JStr ''session.update''), (''session'', session_config svc)])
       svc"

definition service_connect ::
    "connect_outcome \<Rightarrow> string \<Rightarrow> OpenAIRealtimeService
      \<Rightarrow> (exn + unit) \<times> OpenAIRealtimeService \<times> json list" where
  "service_connect outcome eid svc =
     (if isConnected svc then (Inr (), svc, [])
      else case outcome of
             ApiKeyInvalid \<Rightarrow> (Inl (Error ''Invalid or missing OpenAI API key''), svc, [])
           | HandshakeFailed err \<Rightarrow>
               (Inl (Error ''WebSocket error''), svc\<lparr>ws := Some (UpstreamWS False)\<rparr>,
                if eventHandlers svc then [err] else [])
           | HandshakeTimeout \<Rightarrow>
               (Inl (Error ''Connection timeout''), svc\<lparr>ws := Some (UpstreamWS False)\<rparr>, [])
           | Opened r \<Rightarrow>
               (case initializeSession eid (svc\<lparr>ws := Some (UpstreamWS r), isConnected := True\<rparr>) of
                  (res, svc') \<Rightarrow> (res, svc', [])))"


section \<open>Inbound connection and frames (handlers/*.ts, services/auth.ts)\<close>

text \<open>
  A frame that the server sends: \<open>{type, payload?, timestamp, sessionId}\<close>, the timestamp
  being the instant whose ISO text goes on the wire. Of the inbound socket (library \<open>ws\<close>)
  the model keeps its identity, the frames sent on it, the code and reason it was closed
  with, and whether \<open>setupWebSocketHandlers\<close> has registered its listeners. \<open>send\<close> on a
  socket that was closed drops the frame.
\<close>

record frame =
  frame_type :: string
  payload :: "json option"
  timestamp :: int
  frame_sessionId :: string

record client_ws =
  ws_id :: nat
  sent :: "frame list"
  closed :: "(nat \<times> string) option"
  listeners :: bool

definition new_client_ws :: "nat \<Rightarrow> client_ws" where
  "new_client_ws n = \<lparr>ws_id = n, sent = [], closed = None, listeners = False\<rparr>"

definition ws_send :: "frame \<Rightarrow> client_ws \<Rightarrow> client_ws" where
  "ws_send f sock = (if closed sock = None then sock\<lparr>sent := sent sock @ [f]\<rparr> else sock)"

definition ws_close :: "nat \<Rightarrow> string \<Rightarrow> client_ws \<Rightarrow> client_ws" where
  "ws_close code reason sock =
     (if closed sock = None then sock\<lparr>closed := Some (code, reason)\<rparr> else sock)"

record ConnectionContext =
  ctx_sessionId :: string
  ctx_userId :: string
  authenticated :: bool
  connectionTime :: int

definition error_frame :: "int \<Rightarrow> string \<Rightarrow> string \<Rightarrow> frame" where
  "error_frame now sid msg =
     \<lparr>frame_type = ''error'', payload = Some (JObj [(''message'', JStr msg)]),
      timestamp = now, frame_sessionId = sid\<rparr>"

text \<open>
  What a handler reads from outside: the clock and the event identifiers that \<open>sendEvent\<close>
  would generate (a legacy frame sends up to two events).
\<close>

record handler_env =
  env_now :: int
  event_id1 :: string
  event_id2 :: string

text \<open>
  \<open>handleLegacyMessage\<close>; \<open>message\<close> is not null here. The two error frames are built with
  a template literal over \<open>message.type\<close>: when that raises in the default branch, the
  \<open>catch\<close> is entered, raises in the same way, and the function rejects.
\<close>

definition handleLegacyMessage ::
    "handler_env \<Rightarrow> json \<Rightarrow> ConnectionContext \<Rightarrow> client_ws \<times> OpenAIRealtimeService
      \<Rightarrow> (exn + unit) \<times> client_ws \<times> OpenAIRealtimeService" where
  "handleLegacyMessage env message context st =
     (let sock = fst st; svc = snd st;
          t = get_prop message ''type'';
          p = get_prop message ''payload'';
          body =
            (if t = Some (JStr ''text_message'') then
               (case opt_prop p ''text'' of
                  Some text \<Rightarrow>
                    if truthy text
                    then service_sendTextMessage (event_id1 env) (event_id2 env) text svc
                    else (Inr (), svc)
                | None \<Rightarrow> (Inr (), svc), sock)
             else if t = Some (JStr ''audio_data'') then
               (case opt_prop p ''audio'' of
                  Some audio \<Rightarrow>
                    if truthy audio then sendAudioData (event_id1 env) audio svc
                    else (Inr (), svc)
                | None \<Rightarrow> (Inr (), svc), sock)
             else if t = Some (JStr ''audio_commit'') then
               (commitAudioBuffer (event_id1 env) (event_id2 env) svc, sock)
             else if t = Some (JStr ''audio_clear'') then
               (clearAudioBuffer (event_id1 env) svc, sock)
             else
               (case js_String_opt t of
                  None \<Rightarrow>
                    ((Inl (TypeError ''Cannot convert object to primitive value''), svc), sock)
                | Some name \<Rightarrow>
                    ((Inr (), svc),
                     ws_send (error_frame (env_now env) (ctx_sessionId context)
                                (''Unknown message type: '' @ name)) sock)))
      in case body of
           ((Inr u, svc'), sock') \<Rightarrow> (Inr (), sock', svc')
         | ((Inl e, svc'), sock') \<Rightarrow>
             (case js_String_opt t of
                None \<Rightarrow>
                  (Inl (TypeError ''Cannot convert object to primitive value''), sock', svc')
              | Some name \<Rightarrow>
                  (Inr (),
                   ws_send (error_frame (env_now env) (ctx_sessionId context)
                              (''Failed to process '' @ name)) sock',
                   svc')))"

text \<open>
  \<open>handleMessage\<close>. \<open>JSON_parse\<close> is the platform's parser: \<open>None\<close> when it raises. The
  handler acts on the inbound socket, on the service object of the connection and on the
  session registry. Reading \<open>message.type\<close> of a parsed \<open>null\<close> raises as well, before the
  activity update. Whatever raises inside the \<open>try\<close> is answered by the same frame.
\<close>

definition handleMessage ::
    "(string \<Rightarrow> json option) \<Rightarrow> handler_env \<Rightarrow> string \<Rightarrow> ConnectionContext
      \<Rightarrow> client_ws \<times> OpenAIRealtimeService \<times> SessionService
      \<Rightarrow> client_ws \<times> OpenAIRealtimeService \<times> SessionService" where
  "handleMessage JSON_parse env data context st =
     (let sock = fst st; svc = fst (snd st); reg = snd (snd st);
          invalid = error_frame (env_now env) (ctx_sessionId context) ''Invalid message format''
      in case JSON_parse data of
           None \<Rightarrow> (ws_send invalid sock, svc, reg)
         | Some message \<Rightarrow>
             if message = JNull then (ws_send invalid sock, svc, reg)
             else
               let reg' = updateActivity (env_now env) (ctx_sessionId context) reg in
               if get_prop message ''type'' = Some (JStr ''ping'') then
                 (ws_send \<lparr>frame_type = ''pong'', payload = None, timestamp = env_now env,
                           frame_sessionId = ctx_sessionId context\<rparr> sock,
                  svc, reg')
               else if get_prop message ''type'' = Some (JStr ''openai_event'')
                       \<and> truthy_opt (get_prop message ''payload'') then
                 (case get_prop message ''payload'' of
                    None \<Rightarrow> (sock, svc, reg')
                  | Some event \<Rightarrow>
                      (case sendEvent (event_id1 env) event svc of
                         (Inr u, svc') \<Rightarrow> (sock, svc', reg')
                       | (Inl e, svc') \<Rightarrow> (ws_send invalid sock, svc', reg')))
               else
                 (case handleLegacyMessage env message context (sock, svc) of
                    (Inr u, sock', svc') \<Rightarrow> (sock', svc', reg')
                  | (Inl e, sock', svc') \<Rightarrow> (ws_send invalid sock', svc', reg')))"

text \<open>
  \<open>authService\<close>. Of the upgrade request the model keeps the \<open>token\<close> query parameter and
  the \<open>Authorization\<close> header.
\<close>

record request =
  query_token :: "string option"
  authorization :: "string option"

definition extractTokenFromRequest :: "request \<Rightarrow> string option" where
  "extractTokenFromRequest req =
     (case query_token req of
        Some t \<Rightarrow> if t \<noteq> [] then Some t else
          (case authorization req of
             Some h \<Rightarrow> if take 7 h = ''Bearer '' then Some (drop 7 h) else None
           | None \<Rightarrow> None)
      | None \<Rightarrow>
          (case authorization req of
             Some h \<Rightarrow> if take 7 h = ''Bearer '' then Some (drop 7 h) else None
           | None \<Rightarrow> None))"

text \<open>\<open>s.replace(pat, rep)\<close> with a string pattern: the first occurrence only.\<close>

fun replace_first :: "string \<Rightarrow> string \<Rightarrow> string \<Rightarrow> string" where
  "replace_first pat rep [] = (if pat = [] then rep else [])"
| "replace_first pat rep (c # cs) =
     (if take (length pat) (c # cs) = pat then rep @ drop (length pat) (c # cs)
      else c # replace_first pat rep cs)"

definition validateToken :: "string \<Rightarrow> string option" where
  "validateToken token =
     (if token = [] \<or> length token < 10 then None
      else Some (replace_first ''demo_'' [] token))"

text \<open>
  The process-wide state: the session registry and the two maps of
  handlers/connection-utils.ts, the first keyed by the socket, the second by session id.
\<close>

record server =
  registry :: SessionService
  connectionContexts :: "nat \<rightharpoonup> ConnectionContext"
  openaiServices :: "string \<rightharpoonup> OpenAIRealtimeService"

definition server_initial :: server where
  "server_initial = \<lparr>registry = \<lparr>sessions = Map.empty\<rparr>, connectionContexts = Map.empty,
     openaiServices = Map.empty\<rparr>"

text \<open>
  What a new connection reads from outside: the clock, the generated identifiers, whether
  the constructor of the service raises, the configuration it would hold, and the outcome
  of the upstream handshake.
\<close>

record conn_env =
  conn_now :: int
  gen_connectionId :: string
  gen_sessionId :: string
  gen_demoUserId :: string
  gen_eventId :: string
  service_ctor_raises :: bool
  service_cfg :: json
  upstream_outcome :: connect_outcome

definition authenticateConnection ::
    "conn_env \<Rightarrow> request \<Rightarrow> string \<Rightarrow> server \<Rightarrow> ConnectionContext option \<times> server" where
  "authenticateConnection env req cid srv =
     (case extractTokenFromRequest req of
        Some token \<Rightarrow>
          if token = [] then
            (case createSession (gen_sessionId env) (conn_now env) (gen_demoUserId env) cid
                    (registry srv) of
               (sid, reg) \<Rightarrow>
                 (Some \<lparr>ctx_sessionId = sid, ctx_userId = gen_demoUserId env,
                         authenticated = False, connectionTime = conn_now env\<rparr>,
                  srv\<lparr>registry := reg\<rparr>))
          else
            (case validateToken token of
               None \<Rightarrow> (None, srv)
             | Some uid \<Rightarrow>
                 (case createSession (gen_sessionId env) (conn_now env) uid cid (registry srv) of
                    (sid, reg) \<Rightarrow>
                      (Some \<lparr>ctx_sessionId = sid, ctx_userId = uid, authenticated = True,
                              connectionTime = conn_now env\<rparr>,
                       srv\<lparr>registry := reg\<rparr>)))
      | None \<Rightarrow>
          (case createSession (gen_sessionId env) (conn_now env) (gen_demoUserId env) cid
                  (registry srv) of
             (sid, reg) \<Rightarrow>
               (Some \<lparr>ctx_sessionId = sid, ctx_userId = gen_demoUserId env,
                       authenticated = False, connectionTime = conn_now env\<rparr>,
                srv\<lparr>registry := reg\<rparr>)))"

definition sendWelcomeMessage :: "int \<Rightarrow> ConnectionContext \<Rightarrow> client_ws \<Rightarrow> client_ws" where
  "sendWelcomeMessage t context sock =
     ws_send
       \<lparr>frame_type = ''welcome'',
        payload = Some (JObj [(''message'', JStr ''Connected to Smriti AI Guidance''),
                              (''sessionId'', JStr (ctx_sessionId context)),
                              (''userId'', JStr (ctx_userId context)),
                              (''authenticated'', JBool (authenticated context)),
                              (''features'', JArr [JStr ''text_chat'', JStr ''voice_chat'',
                                                   JStr ''spiritual_guidance''])]),
        timestamp = t, frame_sessionId = ctx_sessionId context\<rparr>
       sock"

text \<open>
  \<open>createOpenAIProxy\<close>: the two callbacks given to the service send on the inbound socket.
\<close>

definition proxy_onOpenAIEvent :: "int \<Rightarrow> ConnectionContext \<Rightarrow> json \<Rightarrow> client_ws \<Rightarrow> client_ws" where
  "proxy_onOpenAIEvent t context event sock =
     ws_send \<lparr>frame_type = ''openai_event'', payload = Some event, timestamp = t,
              frame_sessionId = ctx_sessionId context\<rparr> sock"

definition proxy_onOpenAIError :: "int \<Rightarrow> ConnectionContext \<Rightarrow> json \<Rightarrow> client_ws \<Rightarrow> client_ws" where
  "proxy_onOpenAIError t context err sock =
     ws_send \<lparr>frame_type = ''openai_error'', payload = Some (JObj [(''error'', err)]),
              timestamp = t, frame_sessionId = ctx_sessionId context\<rparr> sock"

text \<open>
  \<open>setupAuthenticatedConnection\<close>. The listeners of the inbound socket (message, close,
  error) are registered by \<open>setupWebSocketHandlers\<close>, after \<open>connect()\<close> has resolved. The
  \<open>catch\<close> sends the error frame and closes with 1011; the errors that the service handed
  to the proxy during \<open>connect()\<close> have been sent before.
\<close>

definition setup_failed :: "conn_env \<Rightarrow> ConnectionContext \<Rightarrow> client_ws \<Rightarrow> client_ws" where
  "setup_failed env context sock =
     ws_close 1011 ''Service initialization failed''
       (ws_send (error_frame (conn_now env) (ctx_sessionId context)
                   ''Failed to initialize AI service'') sock)"

definition setupAuthenticatedConnection ::
    "conn_env \<Rightarrow> ConnectionContext \<Rightarrow> client_ws \<times> server \<Rightarrow> client_ws \<times> server" where
  "setupAuthenticatedConnection env context st =
     (let sock = fst st;
          srv1 = (snd st)\<lparr>connectionContexts :=
                    (connectionContexts (snd st))(ws_id sock \<mapsto> context)\<rparr>
      in if service_ctor_raises env then (setup_failed env context sock, srv1)
         else
           let openaiService = setEventHandlers (new_OpenAIRealtimeService (service_cfg env)) in
           (case service_connect (upstream_outcome env) (gen_eventId env) openaiService of
              (res, svc', errs) \<Rightarrow>
                let sock1 = fold (proxy_onOpenAIError (conn_now env) context) errs sock;
                    srv2 = srv1\<lparr>openaiServices :=
                              (openaiServices srv1)(ctx_sessionId context \<mapsto> svc')\<rparr>
                in (case res of
                      Inl e \<Rightarrow> (setup_failed env context sock1, srv2)
                    | Inr u \<Rightarrow>
                        (sendWelcomeMessage (conn_now env) context (sock1\<lparr>listeners := True\<rparr>),
                         srv2))))"

definition handleConnection ::
    "conn_env \<Rightarrow> request \<Rightarrow> client_ws \<times> server \<Rightarrow> client_ws \<times> server" where
  "handleConnection env req st =
     (case authenticateConnection env req (gen_connectionId env) (snd st) of
        (Some context, srv') \<Rightarrow> setupAuthenticatedConnection env context (fst st, srv')
      | (None, srv') \<Rightarrow> (ws_close 1008 ''Authentication failed'' (fst st), srv'))"

text \<open>
  \<open>handleDisconnection\<close>: the service of the session is disconnected and deleted from the
  map, the session is ended, the context of the socket is deleted.
\<close>

definition handleDisconnection :: "client_ws \<Rightarrow> ConnectionContext \<Rightarrow> server \<Rightarrow> server" where
  "handleDisconnection sock context srv =
     srv\<lparr>openaiServices := (openaiServices srv)(ctx_sessionId context := None),
          registry := endSession (ctx_sessionId context) (registry srv),
          connectionContexts := (connectionContexts srv)(ws_id sock := None)\<rparr>"

text \<open>
  The \<open>close\<close> event of the inbound socket, emitted once the socket has closed: it runs
  the listener that \<open>setupWebSocketHandlers\<close> registered, which calls
  \<open>handleDisconnection\<close> with the context of the connection, and nothing if no listener
  was registered.
\<close>

definition emit_close :: "client_ws \<Rightarrow> ConnectionContext \<Rightarrow> server \<Rightarrow> server" where
  "emit_close sock context srv =
     (if listeners sock then handleDisconnection sock context srv else srv)"

text \<open>
  The frame types that \<open>handleMessage\<close> and \<open>handleLegacyMessage\<close> have a branch for: the
  server's own \<open>ping\<close>, the proxy envelope and the four legacy types.
\<close>

definition recognized_types :: "string set" where
  "recognized_types =
     {''ping'', ''openai_event'', ''text_message'', ''audio_data'', ''audio_commit'',
      ''audio_clear''}"

section \<open>Conversation messages on the client (apps/web/hooks/useOpenAIMessages.ts)\<close>

text \<open>
  A JavaScript string is its list of UTF-16 code units: \<open>length\<close> counts them and \<open>trim\<close>
  removes the white space and line terminators of ECMAScript from both ends. The fixed
  texts of the hook are ASCII and written as HOL strings.
\<close>

type_synonym text16 = "16 word list"

definition lit :: "string \<Rightarrow> text16" where
  "lit s = map (\<lambda>c. of_nat (of_char c)) s"

definition is_white :: "16 word \<Rightarrow> bool" where
  "is_white c \<longleftrightarrow>
     c \<in> set [0x9, 0xA, 0xB, 0xC, 0xD, 0x20, 0xA0, 0x1680, 0x2000, 0x2001, 0x2002, 0x2003,
              0x2004, 0x2005, 0x2006, 0x2007, 0x2008, 0x2009, 0x200A, 0x2028, 0x2029, 0x202F,
              0x205F, 0x3000, 0xFEFF]"

definition trim :: "text16 \<Rightarrow> text16" where
  "trim s = rev (dropWhile is_white (rev (dropWhile is_white s)))"

datatype sender = user | ai

datatype message_status =
  status_sending | status_sent | status_receiving | status_completed | status_error

record OpenAIMessage =
  msg_id :: string
  content :: text16
  msg_sender :: sender
  msg_timestamp :: int
  msg_status :: message_status

text \<open>\<open>Partial<OpenAIMessage>\<close> as the hook uses it: a new content, a new status, or both.\<close>

record message_updates =
  new_content :: "text16 option"
  new_status :: "message_status option"

text \<open>
  The frames that the hook hands to \<open>sendWebSocketMessage\<close>: the envelope
  \<open>{type: 'openai_event', payload, timestamp}\<close> around one of the events it builds.
\<close>

datatype client_event =
    ConversationItemCreate text16
  | ResponseCreate "string list"
  | InputAudioBufferAppend text16
  | InputAudioBufferCommit
  | InputAudioBufferClear

record WebSocketMessage =
  wsm_payload :: client_event
  wsm_timestamp :: int

text \<open>
  \<open>sendWebSocketMessage\<close> belongs to the caller. It returns a boolean or raises; the model
  takes it as a function of the frame and records each call.
\<close>

datatype send_result = SendOk | SendRejected | SendRaised string

datatype hook_effect =
    Sent WebSocketMessage
  | OnMessage OpenAIMessage
  | OnErrorText string
  | OnResponseStateChange bool
  | OnAudioChunk text16
  | OnAudioTranscript text16 string
  | OnResponseStart

record current_response =
  cur_id :: string
  cur_content :: text16
  cur_responseId :: string
  cur_itemId :: string

text \<open>
  The state of the hook: \<open>messages\<close>, \<open>isAIResponding\<close>, the ref \<open>currentAIResponseRef\<close>, and
  \<open>effects\<close>, the calls it made to the outside (frames handed to the socket, callbacks) in
  order. State updates take effect in the order the hook requests them. The callbacks are
  the caller's and are taken to return; then nothing inside the \<open>try\<close> of
  \<open>handleOpenAIEvent\<close> raises and its \<open>catch\<close> is not entered.
\<close>

record messages_hook =
  messages :: "OpenAIMessage list"
  isAIResponding :: bool
  currentAIResponseRef :: "current_response option"
  effects :: "hook_effect list"

definition hook_initial :: messages_hook where
  "hook_initial = \<lparr>messages = [], isAIResponding = False, currentAIResponseRef = None,
     effects = []\<rparr>"

definition addMessage :: "OpenAIMessage \<Rightarrow> messages_hook \<Rightarrow> messages_hook" where
  "addMessage m s = s\<lparr>messages := messages s @ [m], effects := effects s @ [OnMessage m]\<rparr>"

definition apply_updates :: "message_updates \<Rightarrow> OpenAIMessage \<Rightarrow> OpenAIMessage" where
  "apply_updates u m =
     (let m1 = (case new_content u of None \<Rightarrow> m | Some c \<Rightarrow> m\<lparr>content := c\<rparr>)
      in case new_status u of None \<Rightarrow> m1 | Some st \<Rightarrow> m1\<lparr>msg_status := st\<rparr>)"

definition updateMessage :: "string \<Rightarrow> message_updates \<Rightarrow> messages_hook \<Rightarrow> messages_hook" where
  "updateMessage i u s =
     s\<lparr>messages := map (\<lambda>msg. if msg_id msg = i then apply_updates u msg else msg) (messages s)\<rparr>"

definition updateAIRespondingState :: "bool \<Rightarrow> messages_hook \<Rightarrow> messages_hook" where
  "updateAIRespondingState responding s =
     s\<lparr>isAIResponding := responding,
       effects := effects s @ [OnResponseStateChange responding]\<rparr>"

definition onError :: "string \<Rightarrow> messages_hook \<Rightarrow> messages_hook" where
  "onError msg s = s\<lparr>effects := effects s @ [OnErrorText msg]\<rparr>"

definition call_send ::
    "(WebSocketMessage \<Rightarrow> send_result) \<Rightarrow> WebSocketMessage \<Rightarrow> messages_hook
      \<Rightarrow> send_result \<times> messages_hook" where
  "call_send sendWebSocketMessage f s = (sendWebSocketMessage f, s\<lparr>effects := effects s @ [Sent f]\<rparr>)"

text \<open>
  \<open>sendTextMessage(text)\<close>; \<open>messageId\<close> is what \<open>generateMessageId('user')\<close> returned and
  \<open>now\<close> the clock.
\<close>

definition sendTextMessage ::
    "(WebSocketMessage \<Rightarrow> send_result) \<Rightarrow> string \<Rightarrow> int \<Rightarrow> text16 \<Rightarrow> messages_hook
      \<Rightarrow> messages_hook" where
  "sendTextMessage sendWebSocketMessage messageId now text s =
     (if trim text = [] then onError ''Message cannot be empty'' s
      else if length text > 1000 then
        onError ''Message is too long. Please keep it under 1000 characters.'' s
      else
        let userMessage = \<lparr>msg_id = messageId, content = trim text, msg_sender = user,
                             msg_timestamp = now, msg_status = status_sending\<rparr>;
            s1 = addMessage userMessage s;
            failed = (\<lambda>err st. onError (''Failed to send message: '' @ err)
                        (updateMessage messageId
                           \<lparr>new_content = None, new_status = Some status_error\<rparr> st))
        in case call_send sendWebSocketMessage
                  \<lparr>wsm_payload = ConversationItemCreate (trim text), wsm_timestamp = now\<rparr> s1 of
             (SendRaised err, s2) \<Rightarrow> failed err s2
           | (SendRejected, s2) \<Rightarrow>
               onError ''Failed to send message to server''
                 (updateMessage messageId
                    \<lparr>new_content = None, new_status = Some status_error\<rparr> s2)
           | (SendOk, s2) \<Rightarrow>
               let s3 = updateMessage messageId
                          \<lparr>new_content = None, new_status = Some status_sent\<rparr> s2
               in case call_send sendWebSocketMessage
                         \<lparr>wsm_payload = ResponseCreate [''text''], wsm_timestamp = now\<rparr> s3 of
                    (SendRaised err, s4) \<Rightarrow> failed err s4
                  | (SendRejected, s4) \<Rightarrow>
                      onError ''Failed to request AI response''
                        (updateMessage messageId
                           \<lparr>new_content = None, new_status = Some status_error\<rparr> s4)
                  | (SendOk, s4) \<Rightarrow> updateAIRespondingState True s4)"

text \<open>
  An event from the server, with the fields of \<open>OpenAIEvent\<close> that the handler reads; the
  error object is present or not and carries an optional message.
\<close>

record event_item =
  item_id :: "string option"
  item_role :: "string option"

record OpenAIEvent =
  ev_type :: string
  ev_response_id :: "string option"
  ev_item :: "event_item option"
  ev_delta :: "text16 option"
  ev_text :: "text16 option"
  ev_transcript :: "text16 option"
  ev_error :: "string option option"

text \<open>\<open>x || d\<close> on an optional string.\<close>

definition or_else :: "'a list option \<Rightarrow> 'a list \<Rightarrow> 'a list" where
  "or_else x d = (case x of None \<Rightarrow> d | Some v \<Rightarrow> if v = [] then d else v)"

text \<open>The branch of the two delta events (text and audio transcript), which are the same.\<close>

definition on_delta :: "OpenAIEvent \<Rightarrow> messages_hook \<Rightarrow> messages_hook" where
  "on_delta event s =
     (case currentAIResponseRef s of
        None \<Rightarrow> s
      | Some cur \<Rightarrow>
          (case ev_delta event of
             None \<Rightarrow> s
           | Some d \<Rightarrow>
               if d = [] then s
               else
                 let cur' = cur\<lparr>cur_content := cur_content cur @ d\<rparr>
                 in updateMessage (cur_id cur')
                      \<lparr>new_content = Some (cur_content cur'),
                        new_status = Some status_receiving\<rparr>
                      (s\<lparr>currentAIResponseRef := Some cur'\<rparr>)))"

text \<open>
  \<open>handleOpenAIEvent(event)\<close>, one definition for the body of each \<open>case\<close> that does more
  than log; \<open>aiMessageId\<close> is what \<open>generateMessageId('ai')\<close> would return and \<open>now\<close> the
  clock.
\<close>

definition on_response_created :: "messages_hook \<Rightarrow> messages_hook" where
  "on_response_created s =
     (let s1 = updateAIRespondingState True s
      in s1\<lparr>effects := effects s1 @ [OnResponseStart]\<rparr>)"

definition on_output_item_added ::
    "string \<Rightarrow> int \<Rightarrow> OpenAIEvent \<Rightarrow> messages_hook \<Rightarrow> messages_hook" where
  "on_output_item_added aiMessageId now event s =
     (case ev_item event of
        None \<Rightarrow> s
      | Some it \<Rightarrow>
          if item_role it = Some ''assistant'' then
            addMessage
              \<lparr>msg_id = aiMessageId, content = [], msg_sender = ai, msg_timestamp = now,
                msg_status = status_receiving\<rparr>
              (s\<lparr>currentAIResponseRef :=
                   Some \<lparr>cur_id = aiMessageId, cur_content = [],
                          cur_responseId = or_else (ev_response_id event) [],
                          cur_itemId = or_else (item_id it) []\<rparr>\<rparr>)
          else s)"

definition on_text_done :: "OpenAIEvent \<Rightarrow> messages_hook \<Rightarrow> messages_hook" where
  "on_text_done event s =
     (case currentAIResponseRef s of
        None \<Rightarrow> s
      | Some cur \<Rightarrow>
          (case ev_text event of
             None \<Rightarrow> s
           | Some t \<Rightarrow>
               if t = [] then s
               else updateMessage (cur_id cur)
                      \<lparr>new_content = Some t, new_status = Some status_completed\<rparr> s))"

definition on_audio_delta :: "OpenAIEvent \<Rightarrow> messages_hook \<Rightarrow> messages_hook" where
  "on_audio_delta event s =
     (case ev_delta event of
        None \<Rightarrow> s
      | Some d \<Rightarrow> if d = [] then s else s\<lparr>effects := effects s @ [OnAudioChunk d]\<rparr>)"

definition on_audio_transcript_done :: "OpenAIEvent \<Rightarrow> messages_hook \<Rightarrow> messages_hook" where
  "on_audio_transcript_done event s =
     (case currentAIResponseRef s of
        None \<Rightarrow> s
      | Some cur \<Rightarrow>
          (case ev_transcript event of
             None \<Rightarrow> s
           | Some t \<Rightarrow>
               if t = [] then s
               else
                 let s1 = updateMessage (cur_id cur)
                            \<lparr>new_content = Some t, new_status = Some status_completed\<rparr> s
                 in s1\<lparr>effects := effects s1 @ [OnAudioTranscript t (cur_id cur)]\<rparr>))"

definition on_response_done :: "messages_hook \<Rightarrow> messages_hook" where
  "on_response_done s =
     (let s1 = updateAIRespondingState False s
      in case currentAIResponseRef s1 of
           None \<Rightarrow> s1
         | Some cur \<Rightarrow>
             (updateMessage (cur_id cur)
                \<lparr>new_content = None, new_status = Some status_completed\<rparr> s1)
             \<lparr>currentAIResponseRef := None\<rparr>)"

definition on_error_event :: "OpenAIEvent \<Rightarrow> messages_hook \<Rightarrow> messages_hook" where
  "on_error_event event s =
     (let s1 = updateAIRespondingState False s;
          s2 = onError (case ev_error event of
                          None \<Rightarrow> ''Unknown OpenAI error occurred''
                        | Some m \<Rightarrow> or_else m ''Unknown OpenAI error occurred'') s1
      in case currentAIResponseRef s2 of
           None \<Rightarrow> s2
         | Some cur \<Rightarrow>
             (updateMessage (cur_id cur)
                \<lparr>new_content = Some (if cur_content cur = []
                                      then lit ''Error generating response''
                                      else cur_content cur),
                  new_status = Some status_error\<rparr> s2)
             \<lparr>currentAIResponseRef := None\<rparr>)"

definition handleOpenAIEvent ::
    "string \<Rightarrow> int \<Rightarrow> OpenAIEvent \<Rightarrow> messages_hook \<Rightarrow> messages_hook" where
  "handleOpenAIEvent aiMessageId now event s =
     (if ev_type event = ''response.created'' then on_response_created s
      else if ev_type event = ''response.output_item.added'' then
        on_output_item_added aiMessageId now event s
      else if ev_type event = ''response.text.delta'' then on_delta event s
      else if ev_type event = ''response.text.done'' then on_text_done event s
      else if ev_type event = ''response.audio.delta'' then on_audio_delta event s
      else if ev_type event = ''response.audio_transcript.delta'' then on_delta event s
      else if ev_type event = ''response.audio_transcript.done'' then
        on_audio_transcript_done event s
      else if ev_type event = ''response.done'' then on_response_done s
      else if ev_type event = ''error'' then on_error_event event s
      else s)"

definition clearMessages :: "messages_hook \<Rightarrow> messages_hook" where
  "clearMessages s =
     updateAIRespondingState False (s\<lparr>messages := [], currentAIResponseRef := None\<rparr>)"

text \<open>
  What happens to the hook, one call after the other: a text submitted by the user or an
  event delivered by the socket, each with the identifier and the clock it reads.
\<close>

datatype hook_call =
    SendText "WebSocketMessage \<Rightarrow> send_result" string int text16
  | Event string int OpenAIEvent

fun hook_step :: "hook_call \<Rightarrow> messages_hook \<Rightarrow> messages_hook" where
  "hook_step (SendText snd_fn i now text) s = sendTextMessage snd_fn i now text s"
| "hook_step (Event i now event) s = handleOpenAIEvent i now event s"

fun hook_run :: "hook_call list \<Rightarrow> messages_hook \<Rightarrow> messages_hook" where
  "hook_run [] s = s"
| "hook_run (c # cs) s = hook_run cs (hook_step c s)"

fun generated_id :: "hook_call \<Rightarrow> string" where
  "generated_id (SendText snd_fn i now text) = i"
| "generated_id (Event i now event) = i"

text \<open>
  \<open>generateMessageId\<close> joins the clock and a random suffix; the calls are taken to return
  identifiers that differ from each other and from those of the messages already there.
\<close>

fun fresh_ids :: "hook_call list \<Rightarrow> string list \<Rightarrow> bool" where
  "fresh_ids [] used = True"
| "fresh_ids (c # cs) used \<longleftrightarrow>
     generated_id c \<notin> set used \<and> fresh_ids cs (generated_id c # used)"

text \<open>The message that \<open>currentAIResponseRef\<close> points to.\<close>

definition tracked :: "messages_hook \<Rightarrow> OpenAIMessage \<Rightarrow> bool" where
  "tracked s m \<longleftrightarrow>
     (case currentAIResponseRef s of None \<Rightarrow> False | Some cur \<Rightarrow> msg_id m = cur_id cur)"

text \<open>
  The ways one call changes the message list, from \<open>s\<close> to \<open>s'\<close>, with \<open>a\<close> the identifier
  the call generated: not at all; the messages with the tracked identifier get a status
  among \<open>receiving\<close>, \<open>completed\<close>, \<open>error\<close> and the tracking ends or stays on that
  identifier; or one message of the assistant is appended with status \<open>receiving\<close> and is
  the tracked one from then on.
\<close>

definition message_step :: "string \<Rightarrow> messages_hook \<Rightarrow> messages_hook \<Rightarrow> bool" where
  "message_step a s s' \<longleftrightarrow>
     (messages s' = messages s
        \<and> (currentAIResponseRef s' = currentAIResponseRef s \<or> currentAIResponseRef s' = None))
     \<or> (\<exists>u c. currentAIResponseRef s = Some c
           \<and> messages s' = messages (updateMessage (cur_id c) u s)
           \<and> new_status u \<in> {Some status_receiving, Some status_completed, Some status_error}
           \<and> (case currentAIResponseRef s' of None \<Rightarrow> True | Some c' \<Rightarrow> cur_id c' = cur_id c))
     \<or> (\<exists>m c'. msg_id m = a \<and> msg_status m = status_receiving \<and> msg_sender m = ai
           \<and> messages s' = messages s @ [m]
           \<and> currentAIResponseRef s' = Some c' \<and> cur_id c' = a)"

text \<open>An event that carries nothing but its type, and one for each field the examples set.\<close>

definition bare_event :: "string \<Rightarrow> OpenAIEvent" where
  "bare_event t = \<lparr>ev_type = t, ev_response_id = None, ev_item = None, ev_delta = None,
     ev_text = None, ev_transcript = None, ev_error = None\<rparr>"

definition assistant_item_added :: OpenAIEvent where
  "assistant_item_added =
     (bare_event ''response.output_item.added'')
       \<lparr>ev_response_id := Some ''resp_1'',
         ev_item := Some \<lparr>item_id = Some ''item_1'', item_role = Some ''assistant''\<rparr>\<rparr>"

section \<open>Audio capture (apps/web/hooks/useRealTimeAudio.ts)\<close>

text \<open>
  The hook's state (\<open>audioState\<close>, \<open>hasPermission\<close>, \<open>audioLevel\<close>, \<open>error\<close>) and its refs. A
  ref to a browser object is the handle of the object, or \<open>None\<close> for null. What the hook
  does to the browser and to its caller is recorded in \<open>audio_effects\<close>, in order.
  A callback made with \<open>useCallback\<close> reads the \<open>audioState\<close> of the render that created it,
  not the value a later \<open>setAudioState\<close> has written: that captured value is an argument
  of the callback's model. A render hands out callbacks that captured the \<open>audioState\<close> it
  saw, and its effect copies that value to \<open>audioStateRef\<close>.
\<close>

datatype AudioState = audio_idle | audio_requesting_permission | audio_capturing | audio_error

datatype audio_effect =
    CancelAnimationFrame nat
  | TrackStop nat
  | AudioContextClose nat
  | OnCaptureStart
  | OnCaptureStop
  | OnAudioChunkOut string

record audio_hook =
  audioState :: AudioState
  hasPermission :: "bool option"
  audioLevel :: nat
  audio_error_text :: "string option"
  streamRef :: "nat option"
  audioContextRef :: "nat option"
  analyserRef :: "nat option"
  processorRef :: "nat option"
  animationFrameRef :: "nat option"
  audioStateRef :: AudioState
  audio_effects :: "audio_effect list"

definition setAudioState :: "AudioState \<Rightarrow> audio_hook \<Rightarrow> audio_hook" where
  "setAudioState v s = s\<lparr>audioState := v\<rparr>"

definition render_effect :: "audio_hook \<Rightarrow> audio_hook" where
  "render_effect s = s\<lparr>audioStateRef := audioState s\<rparr>"

text \<open>
  \<open>cleanup\<close>. The test \<open>if (animationFrameRef.current)\<close> is on a number, so a handle 0 counts
  as absent.
\<close>

definition cleanup :: "audio_hook \<Rightarrow> audio_hook" where
  "cleanup s =
     (let s1 = (case animationFrameRef s of
                  None \<Rightarrow> s
                | Some n \<Rightarrow>
                    if n = 0 then s
                    else s\<lparr>animationFrameRef := None,
                           audio_effects := audio_effects s @ [CancelAnimationFrame n]\<rparr>);
          s2 = (case streamRef s1 of
                  None \<Rightarrow> s1
                | Some h \<Rightarrow> s1\<lparr>streamRef := None,
                                audio_effects := audio_effects s1 @ [TrackStop h]\<rparr>);
          s3 = (case audioContextRef s2 of
                  None \<Rightarrow> s2
                | Some h \<Rightarrow> s2\<lparr>audioContextRef := None,
                                audio_effects := audio_effects s2 @ [AudioContextClose h]\<rparr>)
      in s3\<lparr>analyserRef := None, processorRef := None, audioLevel := 0\<rparr>)"


definition clearError :: "audio_hook \<Rightarrow> audio_hook" where
  "clearError s = setAudioState audio_idle (s\<lparr>audio_error_text := None\<rparr>)"

section \<open>PCM16 conversion (useRealTimeAudio.ts, useAudioPlayer.ts)\<close>

text \<open>
  A sample of a \<open>Float32Array\<close> is modelled by the real number it denotes; NaN is not a
  value of the model. The products \<open>sample * 0x8000\<close> and \<open>sample * 0x7FFF\<close> of a
  single-precision value are exact in double precision, and so are the conversions to
  integers; the quotient computed by the decoder is the exact one, before it is rounded to
  single precision. A byte is an \<open>8 word\<close>; the binary string between the byte array and
  \<open>btoa\<close>/\<open>atob\<close> is the list of its character codes, which are bytes.
\<close>

definition clamp_sample :: "real \<Rightarrow> real" where
  "clamp_sample x = max (- 1) (min 1 x)"

definition pcmSample :: "real \<Rightarrow> real" where
  "pcmSample x =
     (let sample = clamp_sample x in if sample < 0 then sample * 32768 else sample * 32767)"

text \<open>
  \<open>DataView.setInt16(offset, value, true)\<close>: the value is truncated towards zero, reduced
  modulo \<open>2 ^ 16\<close> and stored low byte first. \<open>getInt16(offset, true)\<close> reads the two bytes
  as a signed number.
\<close>

definition js_trunc :: "real \<Rightarrow> int" where
  "js_trunc v = (if v < 0 then \<lceil>v\<rceil> else \<lfloor>v\<rfloor>)"

definition setInt16 :: "real \<Rightarrow> 8 word list" where
  "setInt16 v = (let u = js_trunc v mod 65536 in [word_of_int (u mod 256), word_of_int (u div 256)])"

definition getInt16 :: "8 word \<Rightarrow> 8 word \<Rightarrow> int" where
  "getInt16 lo hi = (let u = uint lo + 256 * uint hi in if u \<ge> 32768 then u - 65536 else u)"

definition pcm_bytes :: "real list \<Rightarrow> 8 word list" where
  "pcm_bytes audioData = concat (map (\<lambda>x. setInt16 (pcmSample x)) audioData)"

text \<open>
  The loop that builds the binary string in chunks of \<open>0x8000\<close> bytes
  (\<open>binary += String.fromCharCode.apply(null, chunk)\<close>).
\<close>

function binary_string :: "8 word list \<Rightarrow> 8 word list" where
  "binary_string bytes =
     (if bytes = [] then [] else take 32768 bytes @ binary_string (drop 32768 bytes))"
  by pat_completeness auto
termination
  by (relation "measure length") auto

text \<open>\<open>convertToPCM16\<close>, with the platform's \<open>btoa\<close> as a parameter.\<close>

definition convertToPCM16 :: "(8 word list \<Rightarrow> string) \<Rightarrow> real list \<Rightarrow> string" where
  "convertToPCM16 btoa audioData = btoa (binary_string (pcm_bytes audioData))"

text \<open>
  The loop of \<open>decodeAudioData\<close> over the channel data, whose length is half the byte
  length, rounded down: a last odd byte is not read.
\<close>

fun pcm_samples :: "8 word list \<Rightarrow> real list" where
  "pcm_samples (lo # hi # rest) =
     (let sample = getInt16 lo hi
      in real_of_int sample / (if sample < 0 then 32768 else 32767)) # pcm_samples rest"
| "pcm_samples bytes = []"

text \<open>
  \<open>decodeAudioData\<close>, with the platform's \<open>atob\<close> as a parameter: \<open>None\<close> when it raises. The
  audio context is taken to be available. \<open>createBuffer\<close> rejects a length of zero frames;
  both failures are rethrown as \<open>Failed to decode audio data\<close>.
\<close>

definition decodeAudioData :: "(string \<Rightarrow> 8 word list option) \<Rightarrow> string \<Rightarrow> string + real list" where
  "decodeAudioData atob base64Audio =
     (case atob base64Audio of
        None \<Rightarrow> Inl ''Failed to decode audio data''
      | Some bytes \<Rightarrow>
          if length bytes div 2 = 0 then Inl ''Failed to decode audio data''
          else Inr (pcm_samples bytes))"

text \<open>
  The handler \<open>onaudioprocess\<close> of the script processor: a block is converted and handed to
  the caller only while the state ref says \<open>capturing\<close>.
\<close>

definition onaudioprocess :: "(8 word list \<Rightarrow> string) \<Rightarrow> real list \<Rightarrow> audio_hook \<Rightarrow> audio_hook" where
  "onaudioprocess btoa inputData s =
     (if audioStateRef s \<noteq> audio_capturing then s
      else s\<lparr>audio_effects := audio_effects s @ [OnAudioChunkOut (convertToPCM16 btoa inputData)]\<rparr>)"

text \<open>
  Base64 as \<open>btoa\<close> produces it and \<open>atob\<close> reads it back (RFC 4648, with padding), written
  out for the examples; the theorems take the two functions as parameters.
\<close>

definition base64_alphabet :: string where
  "base64_alphabet = ''ABCDEFGHIJKLMNOPQRSTUVWXYZabcdefghijklmnopqrstuvwxyz0123456789+/''"

definition b64_char :: "nat \<Rightarrow> char" where
  "b64_char n = base64_alphabet ! n"

fun base64_encode :: "8 word list \<Rightarrow> string" where
  "base64_encode [] = []"
| "base64_encode [a] =
     [b64_char (unat a div 4), b64_char (unat a mod 4 * 16), CHR ''='', CHR ''='']"
| "base64_encode [a, b] =
     [b64_char (unat a div 4), b64_char (unat a mod 4 * 16 + unat b div 16),
      b64_char (unat b mod 16 * 4), CHR ''='']"
| "base64_encode (a # b # c # rest) =
     [b64_char (unat a div 4), b64_char (unat a mod 4 * 16 + unat b div 16),
      b64_char (unat b mod 16 * 4 + unat c div 64), b64_char (unat c mod 64)]
     @ base64_encode rest"

fun index_of :: "char \<Rightarrow> string \<Rightarrow> nat option" where
  "index_of c [] = None"
| "index_of c (x # xs) = (if c = x then Some 0 else map_option Suc (index_of c xs))"

definition b64_value :: "char \<Rightarrow> nat option" where
  "b64_value c = index_of c base64_alphabet"

fun base64_decode :: "string \<Rightarrow> 8 word list option" where
  "base64_decode [] = Some []"
| "base64_decode (w # x # y # z # rest) =
     (case (b64_value w, b64_value x) of
        (Some p, Some q) \<Rightarrow>
          if y = CHR ''='' \<and> z = CHR ''='' \<and> rest = [] then Some [of_nat (p * 4 + q div 16)]
          else
            (case b64_value y of
               None \<Rightarrow> None
             | Some r \<Rightarrow>
                 if z = CHR ''='' \<and> rest = [] then
                   Some [of_nat (p * 4 + q div 16), of_nat (q mod 16 * 16 + r div 4)]
                 else
                   (case (b64_value z, base64_decode rest) of
                      (Some t, Some bs) \<Rightarrow>
                        Some (of_nat (p * 4 + q div 16) # of_nat (q mod 16 * 16 + r div 4)
                              # of_nat (r mod 4 * 64 + t) # bs)
                    | _ \<Rightarrow> None))
      | _ \<Rightarrow> None)"
| "base64_decode s = None"

section \<open>Properties of the client connection hook\<close>

lemma timers_onclose:
  "timers (onclose code s) =
     (if shouldReconnect s code then timers s @ [backoffDelay (reconnectAttemptsRef s + 1)]
      else timers s)"
  by (simp add: onclose_def shouldReconnect_def Let_def)

lemma attempts_onclose:
  "reconnectAttemptsRef (onclose code s) =
     (if shouldReconnect s code then reconnectAttemptsRef s + 1 else reconnectAttemptsRef s)"
  by (simp add: onclose_def shouldReconnect_def Let_def)

lemma timeoutRef_onclose:
  "shouldReconnect s code \<Longrightarrow>
     reconnectTimeoutRef (onclose code s) = Some (backoffDelay (reconnectAttemptsRef s + 1))"
  by (simp add: onclose_def shouldReconnect_def Let_def)

lemma attempts_clearReconnectTimeout:
  "reconnectAttemptsRef (clearReconnectTimeout s) = reconnectAttemptsRef s"
  by (simp add: clearReconnectTimeout_def split: option.splits)

text \<open>
  C1, as the code has it. A close event arms a reconnect timer exactly when the closure was
  not manual, the attempt counter is below \<open>RECONNECT_ATTEMPTS\<close> and the close code is
  none of 1002 (protocol error), 1003 (unsupported data) and 1005 (no status); in every
  other case the timers are left as they were.
\<close>

theorem onclose_schedules_iff:
  "(schedules_reconnect s (onclose code s) \<longleftrightarrow>
      \<not> isManualDisconnectRef s \<and> reconnectAttemptsRef s < RECONNECT_ATTEMPTS
      \<and> code \<notin> {PROTOCOL_ERROR, UNSUPPORTED_DATA, NO_STATUS})
   \<and> (\<not> schedules_reconnect s (onclose code s) \<longrightarrow> timers (onclose code s) = timers s)"
  by (simp add: schedules_reconnect_def timers_onclose shouldReconnect_def
      permanentErrorCodes_def PROTOCOL_ERROR_def UNSUPPORTED_DATA_def NO_STATUS_def)

theorem onclose_schedules_iff_witness:
  "schedules_reconnect (onopen (ws_connect None ws_initial))
     (onclose 1006 (onopen (ws_connect None ws_initial)))
   \<and> \<not> schedules_reconnect (ws_disconnect (onopen (ws_connect None ws_initial)))
         (onclose 1000 (ws_disconnect (onopen (ws_connect None ws_initial))))
   \<and> timers (onclose 1000 (ws_disconnect (onopen (ws_connect None ws_initial)))) = []"
  using onclose_schedules_iff [of "onopen (ws_connect None ws_initial)" 1006]
    onclose_schedules_iff [of "ws_disconnect (onopen (ws_connect None ws_initial))" 1000]
  by (simp add: onopen_def ws_connect_def ws_disconnect_def ws_initial_def clearReconnectTimeout_def
      RECONNECT_ATTEMPTS_def PROTOCOL_ERROR_def UNSUPPORTED_DATA_def NO_STATUS_def Let_def)

text \<open>
  C1, as the claim words it, fails: 1008 (policy violation) is not in the hook's list, so
  a close with that code on a freshly opened connection arms a reconnect timer.
\<close>

theorem onclose_policy_violation_schedules:
  "schedules_reconnect (onopen (ws_connect None ws_initial))
     (onclose POLICY_VIOLATION (onopen (ws_connect None ws_initial)))"
  by (simp add: schedules_reconnect_def timers_onclose shouldReconnect_def onopen_def
      ws_connect_def ws_initial_def clearReconnectTimeout_def permanentErrorCodes_def
      RECONNECT_ATTEMPTS_def POLICY_VIOLATION_def Let_def)

text \<open>
  C4. When the close handler schedules the \<open>n\<close>-th reconnection attempt
  (\<open>1 \<le> n \<le> RECONNECT_ATTEMPTS\<close>), the counter becomes \<open>n\<close> and the timer is armed with
  \<open>min (RECONNECT_INTERVAL * 2 ^ (n - 1)) 30000\<close> milliseconds; the open handler sets the
  counter to 0.
\<close>

theorem backoff_delay_and_reset:
  assumes "1 \<le> n" and "n \<le> RECONNECT_ATTEMPTS"
    and "reconnectAttemptsRef s = n - 1"
    and "\<not> isManualDisconnectRef s" and "code \<notin> set permanentErrorCodes"
  shows "reconnectAttemptsRef (onclose code s) = n
    \<and> timers (onclose code s) = timers s @ [min (RECONNECT_INTERVAL * 2 ^ (n - 1)) 30000]
    \<and> reconnectTimeoutRef (onclose code s) = Some (min (2000 * 2 ^ (n - 1)) 30000)
    \<and> reconnectAttemptsRef (onopen t) = 0"
proof -
  from assms have sr: "shouldReconnect s code"
    by (simp add: shouldReconnect_def)
  from assms have n: "reconnectAttemptsRef s + 1 = n"
    by simp
  have "reconnectAttemptsRef (onopen t) = 0"
    by (simp add: onopen_def Let_def attempts_clearReconnectTimeout)
  with sr n show ?thesis
    by (simp add: timers_onclose attempts_onclose timeoutRef_onclose backoffDelay_def
        RECONNECT_INTERVAL_def)
qed

theorem backoff_delay_and_reset_witness:
  "reconnectAttemptsRef (onclose 1006 (ws_initial\<lparr>reconnectAttemptsRef := 4\<rparr>)) = 5
   \<and> timers (onclose 1006 (ws_initial\<lparr>reconnectAttemptsRef := 4\<rparr>)) = [30000]
   \<and> reconnectTimeoutRef (onclose 1006 (ws_initial\<lparr>reconnectAttemptsRef := 4\<rparr>)) = Some 30000
   \<and> reconnectAttemptsRef
        (onopen (onclose 1006 (ws_initial\<lparr>reconnectAttemptsRef := 4\<rparr>))) = 0"
  using backoff_delay_and_reset [of 5 "ws_initial\<lparr>reconnectAttemptsRef := 4\<rparr>" 1006
      "onclose 1006 (ws_initial\<lparr>reconnectAttemptsRef := 4\<rparr>)"]
  by (simp add: ws_initial_def RECONNECT_ATTEMPTS_def RECONNECT_INTERVAL_def
      permanentErrorCodes_def)

section \<open>Properties of the session registry\<close>

lemma getSession_absent:
  "sessions svc k = None \<Longrightarrow> getSession now k svc = (None, svc)"
  by (simp add: getSession_def)

lemma getSession_expired:
  "sessions svc k = Some x \<Longrightarrow> now - lastActivity x > sessionTimeout \<Longrightarrow>
     fst (getSession now k svc) = None \<and> sessions (snd (getSession now k svc)) k = None"
  by (simp add: getSession_def isSessionExpired_def endSession_def)

lemma getSession_live:
  "sessions svc k = Some x \<Longrightarrow> \<not> now - lastActivity x > sessionTimeout \<Longrightarrow>
     getSession now k svc = (Some x, svc)"
  by (simp add: getSession_def isSessionExpired_def)

lemma getSession_Some:
  "fst (getSession now k svc) = Some y \<Longrightarrow>
     sessions svc k = Some y \<and> now - lastActivity y \<le> sessionTimeout"
  by (auto simp: getSession_def isSessionExpired_def split: option.splits if_splits)

text \<open>
  C6. For a stored session whose inactivity \<open>now - lastActivity\<close> exceeds the timeout of
  30 minutes, \<open>getSession\<close> returns null and the session is no longer in the map afterwards;
  whatever \<open>getSession\<close> returns is within the timeout; and for a stored session within the
  timeout it returns that session and leaves the registry as it was.
\<close>

theorem getSession_timeout:
  "sessionTimeout = 1800000
   \<and> (sessions svc k = Some x \<and> now - lastActivity x > sessionTimeout \<longrightarrow>
        fst (getSession now k svc) = None \<and> sessions (snd (getSession now k svc)) k = None)
   \<and> (\<forall>y. fst (getSession now k svc) = Some y \<longrightarrow>
        sessions svc k = Some y \<and> now - lastActivity y \<le> sessionTimeout)
   \<and> (sessions svc k = Some x \<and> now - lastActivity x \<le> sessionTimeout \<longrightarrow>
        getSession now k svc = (Some x, svc))"
proof -
  have "sessionTimeout = 1800000"
    by (simp add: sessionTimeout_def)
  moreover have "sessions svc k = Some x \<and> now - lastActivity x > sessionTimeout \<longrightarrow>
        fst (getSession now k svc) = None \<and> sessions (snd (getSession now k svc)) k = None"
    using getSession_expired [of svc k x now] by blast
  moreover have "\<forall>y. fst (getSession now k svc) = Some y \<longrightarrow>
        sessions svc k = Some y \<and> now - lastActivity y \<le> sessionTimeout"
    using getSession_Some [of now k svc] by blast
  moreover have "sessions svc k = Some x \<and> now - lastActivity x \<le> sessionTimeout \<longrightarrow>
        getSession now k svc = (Some x, svc)"
    using getSession_live [of svc k x now] by auto
  ultimately show ?thesis
    by blast
qed

theorem getSession_timeout_witness:
  "fst (getSession 1800001 ''sess_0_a''
          (snd (createSession ''sess_0_a'' 0 ''u'' ''c'' \<lparr>sessions = Map.empty\<rparr>))) = None
   \<and> sessions (snd (getSession 1800001 ''sess_0_a''
          (snd (createSession ''sess_0_a'' 0 ''u'' ''c'' \<lparr>sessions = Map.empty\<rparr>)))) ''sess_0_a''
       = None
   \<and> getSession 1800000 ''sess_0_a''
          (snd (createSession ''sess_0_a'' 0 ''u'' ''c'' \<lparr>sessions = Map.empty\<rparr>))
       = (Some \<lparr>session_id = ''sess_0_a'', userId = ''u'', connectionId = ''c'', createdAt = 0,
                 lastActivity = 0, status = active\<rparr>,
          snd (createSession ''sess_0_a'' 0 ''u'' ''c'' \<lparr>sessions = Map.empty\<rparr>))"
proof -
  define x where "x = \<lparr>session_id = ''sess_0_a'', userId = ''u'', connectionId = ''c'', createdAt = 0,
         lastActivity = 0, status = active\<rparr>"
  define svc where "svc = snd (createSession ''sess_0_a'' 0 ''u'' ''c'' \<lparr>sessions = Map.empty\<rparr>)"
  have stored: "sessions svc ''sess_0_a'' = Some x"
    by (simp add: createSession_def svc_def x_def)
  have la: "lastActivity x = 0"
    by (simp add: x_def)
  have t: "sessionTimeout = 1800000"
    by (simp add: sessionTimeout_def)
  from getSession_timeout [of svc "''sess_0_a''" x 1800001]
  have "sessions svc ''sess_0_a'' = Some x \<and> 1800001 - lastActivity x > sessionTimeout \<longrightarrow>
      fst (getSession 1800001 ''sess_0_a'' svc) = None
      \<and> sessions (snd (getSession 1800001 ''sess_0_a'' svc)) ''sess_0_a'' = None"
    by blast
  with stored t la
  have a: "fst (getSession 1800001 ''sess_0_a'' svc) = None
      \<and> sessions (snd (getSession 1800001 ''sess_0_a'' svc)) ''sess_0_a'' = None"
    by simp
  from getSession_timeout [of svc "''sess_0_a''" x 1800000]
  have "sessions svc ''sess_0_a'' = Some x \<and> 1800000 - lastActivity x \<le> sessionTimeout \<longrightarrow>
      getSession 1800000 ''sess_0_a'' svc = (Some x, svc)"
    by blast
  with stored t la have b: "getSession 1800000 ''sess_0_a'' svc = (Some x, svc)"
    by simp
  from a b show ?thesis
    unfolding svc_def x_def by simp
qed

section \<open>Properties of the message router\<close>

lemma closed_ws_send: "closed (ws_send f sock) = closed sock"
  by (simp add: ws_send_def)

lemma ws_send_open: "closed sock = None \<Longrightarrow> ws_send f sock = sock\<lparr>sent := sent sock @ [f]\<rparr>"
  by (simp add: ws_send_def)

lemma dom_updateActivity: "dom (sessions (updateActivity t k reg)) = dom (sessions reg)"
  by (auto simp: updateActivity_def split: option.splits)

lemma closed_handleLegacyMessage:
  "closed (fst (snd (handleLegacyMessage env message ctx (sock, svc)))) = closed sock"
  by (simp add: handleLegacyMessage_def Let_def closed_ws_send
      split: prod.splits sum.splits option.splits)

lemma closed_handleLegacyMessage_triple:
  assumes "handleLegacyMessage env message ctx (sock, svc) = (r, sock', svc')"
  shows "closed sock' = closed sock"
  using closed_handleLegacyMessage [of env message ctx sock svc] assms by simp

lemma closed_handleMessage:
  "closed (fst (handleMessage JSON_parse env data ctx (sock, svc, reg))) = closed sock"
  by (auto simp: handleMessage_def Let_def closed_ws_send
      dest: closed_handleLegacyMessage_triple split: prod.splits sum.splits option.splits)

lemma registry_handleMessage:
  "dom (sessions (snd (snd (handleMessage JSON_parse env data ctx (sock, svc, reg)))))
     = dom (sessions reg)"
  by (simp add: handleMessage_def Let_def dom_updateActivity
      split: prod.splits sum.splits option.splits)

lemma handleMessage_parse_error:
  "JSON_parse data = None \<Longrightarrow>
     handleMessage JSON_parse env data ctx (sock, svc, reg)
       = (ws_send (error_frame (env_now env) (ctx_sessionId ctx) ''Invalid message format'') sock,
          svc, reg)"
  by (simp add: handleMessage_def Let_def)

lemma handleLegacyMessage_unknown:
  "get_prop message ''type'' = Some (JStr t) \<Longrightarrow> t \<notin> recognized_types \<Longrightarrow>
     handleLegacyMessage env message ctx (sock, svc)
       = (Inr (), ws_send (error_frame (env_now env) (ctx_sessionId ctx)
                    (''Unknown message type: '' @ t)) sock, svc)"
  by (simp add: handleLegacyMessage_def Let_def recognized_types_def)

lemma handleMessage_unknown:
  "JSON_parse data = Some message \<Longrightarrow> get_prop message ''type'' = Some (JStr t) \<Longrightarrow>
   t \<notin> recognized_types \<Longrightarrow>
     handleMessage JSON_parse env data ctx (sock, svc, reg)
       = (ws_send (error_frame (env_now env) (ctx_sessionId ctx)
                    (''Unknown message type: '' @ t)) sock,
          svc, updateActivity (env_now env) (ctx_sessionId ctx) reg)"
proof -
  assume p: "JSON_parse data = Some message"
    and t: "get_prop message ''type'' = Some (JStr t)" and u: "t \<notin> recognized_types"
  from t have "message \<noteq> JNull"
    by auto
  moreover from u have "t \<noteq> ''ping''" and "t \<noteq> ''openai_event''"
    by (simp_all add: recognized_types_def)
  ultimately show ?thesis
    using p t u by (simp add: handleMessage_def Let_def handleLegacyMessage_unknown)
qed

lemma sendEvent_not_connected:
  "\<not> isConnected svc \<Longrightarrow>
     sendEvent eid event svc = (Inl (Error ''Not connected to OpenAI Realtime API''), svc)"
  by (simp add: sendEvent_def split: option.splits)

lemma handleMessage_forward_failure:
  assumes "JSON_parse data = Some message"
    and "get_prop message ''type'' = Some (JStr ''openai_event'')"
    and "get_prop message ''payload'' = Some event" and "truthy event"
    and "fst (sendEvent (event_id1 env) event svc) = Inl e"
  shows "handleMessage JSON_parse env data ctx (sock, svc, reg)
       = (ws_send (error_frame (env_now env) (ctx_sessionId ctx) ''Invalid message format'') sock,
          snd (sendEvent (event_id1 env) event svc),
          updateActivity (env_now env) (ctx_sessionId ctx) reg)"
proof -
  from assms(2) have n: "message \<noteq> JNull"
    by auto
  from assms(5) obtain svc' where s: "sendEvent (event_id1 env) event svc = (Inl e, svc')"
    by (cases "sendEvent (event_id1 env) event svc") auto
  then have "snd (sendEvent (event_id1 env) event svc) = svc'"
    by simp
  with n s assms(1-4) show ?thesis
    by (simp add: handleMessage_def Let_def)
qed

text \<open>
  C7. On an open inbound socket, a frame that \<open>JSON.parse\<close> rejects is answered with one
  frame of type \<open>error\<close> whose payload is \<open>{message: "Invalid message format"}\<close>, and a
  parsed object whose \<open>type\<close> is a string outside the recognized types is answered with one
  frame of type \<open>error\<close> whose payload is \<open>{message: "Unknown message type: <type>"}\<close>; both
  carry the clock and the session id of the connection. No frame makes \<open>handleMessage\<close>
  close the socket or add or remove a session.
\<close>

theorem invalid_and_unknown_frames:
  assumes "closed sock = None"
  shows "(JSON_parse data = None \<longrightarrow>
            handleMessage JSON_parse env data ctx (sock, svc, reg)
              = (sock\<lparr>sent := sent sock
                   @ [\<lparr>frame_type = ''error'',
                       payload = Some (JObj [(''message'', JStr ''Invalid message format'')]),
                       timestamp = env_now env, frame_sessionId = ctx_sessionId ctx\<rparr>]\<rparr>,
                 svc, reg))
    \<and> (\<forall>fs t. JSON_parse data = Some (JObj fs) \<and> map_of fs ''type'' = Some (JStr t)
               \<and> t \<notin> recognized_types \<longrightarrow>
            handleMessage JSON_parse env data ctx (sock, svc, reg)
              = (sock\<lparr>sent := sent sock
                   @ [\<lparr>frame_type = ''error'',
                       payload = Some (JObj [(''message'', JStr (''Unknown message type: '' @ t))]),
                       timestamp = env_now env, frame_sessionId = ctx_sessionId ctx\<rparr>]\<rparr>,
                 svc, updateActivity (env_now env) (ctx_sessionId ctx) reg))
    \<and> closed (fst (handleMessage JSON_parse env data ctx (sock, svc, reg))) = None
    \<and> dom (sessions (snd (snd (handleMessage JSON_parse env data ctx (sock, svc, reg)))))
        = dom (sessions reg)"
proof -
  have a: "JSON_parse data = None \<longrightarrow>
            handleMessage JSON_parse env data ctx (sock, svc, reg)
              = (sock\<lparr>sent := sent sock
                   @ [\<lparr>frame_type = ''error'',
                       payload = Some (JObj [(''message'', JStr ''Invalid message format'')]),
                       timestamp = env_now env, frame_sessionId = ctx_sessionId ctx\<rparr>]\<rparr>,
                 svc, reg)"
    using assms by (simp add: handleMessage_parse_error ws_send_open error_frame_def)
  have b: "\<forall>fs t. JSON_parse data = Some (JObj fs) \<and> map_of fs ''type'' = Some (JStr t)
               \<and> t \<notin> recognized_types \<longrightarrow>
            handleMessage JSON_parse env data ctx (sock, svc, reg)
              = (sock\<lparr>sent := sent sock
                   @ [\<lparr>frame_type = ''error'',
                       payload = Some (JObj [(''message'', JStr (''Unknown message type: '' @ t))]),
                       timestamp = env_now env, frame_sessionId = ctx_sessionId ctx\<rparr>]\<rparr>,
                 svc, updateActivity (env_now env) (ctx_sessionId ctx) reg)"
  proof (intro allI impI)
    fix fs t
    assume h: "JSON_parse data = Some (JObj fs) \<and> map_of fs ''type'' = Some (JStr t)
               \<and> t \<notin> recognized_types"
    then have "get_prop (JObj fs) ''type'' = Some (JStr t)"
      by simp
    with h assms show "handleMessage JSON_parse env data ctx (sock, svc, reg)
              = (sock\<lparr>sent := sent sock
                   @ [\<lparr>frame_type = ''error'',
                       payload = Some (JObj [(''message'', JStr (''Unknown message type: '' @ t))]),
                       timestamp = env_now env, frame_sessionId = ctx_sessionId ctx\<rparr>]\<rparr>,
                 svc, updateActivity (env_now env) (ctx_sessionId ctx) reg)"
      by (simp add: handleMessage_unknown [of JSON_parse data "JObj fs" t] ws_send_open
          error_frame_def)
  qed
  have c: "closed (fst (handleMessage JSON_parse env data ctx (sock, svc, reg))) = None"
    using assms by (simp add: closed_handleMessage)
  from a b c registry_handleMessage [of JSON_parse env data ctx sock svc reg]
  show ?thesis
    by blast
qed

theorem invalid_and_unknown_frames_witness:
  "handleMessage (\<lambda>d. if d = ''F'' then Some (JObj [(''type'', JStr ''foo'')]) else None)
      \<lparr>env_now = 5, event_id1 = ''e1'', event_id2 = ''e2''\<rparr> ''{''
      \<lparr>ctx_sessionId = ''s1'', ctx_userId = ''u'', authenticated = False, connectionTime = 0\<rparr>
      (new_client_ws 1, new_OpenAIRealtimeService JNull, \<lparr>sessions = Map.empty\<rparr>)
    = ((new_client_ws 1)\<lparr>sent :=
          [\<lparr>frame_type = ''error'',
            payload = Some (JObj [(''message'', JStr ''Invalid message format'')]),
            timestamp = 5, frame_sessionId = ''s1''\<rparr>]\<rparr>,
       new_OpenAIRealtimeService JNull, \<lparr>sessions = Map.empty\<rparr>)
   \<and> handleMessage (\<lambda>d. if d = ''F'' then Some (JObj [(''type'', JStr ''foo'')]) else None)
      \<lparr>env_now = 5, event_id1 = ''e1'', event_id2 = ''e2''\<rparr> ''F''
      \<lparr>ctx_sessionId = ''s1'', ctx_userId = ''u'', authenticated = False, connectionTime = 0\<rparr>
      (new_client_ws 1, new_OpenAIRealtimeService JNull, \<lparr>sessions = Map.empty\<rparr>)
    = ((new_client_ws 1)\<lparr>sent :=
          [\<lparr>frame_type = ''error'',
            payload = Some (JObj [(''message'', JStr ''Unknown message type: foo'')]),
            timestamp = 5, frame_sessionId = ''s1''\<rparr>]\<rparr>,
       new_OpenAIRealtimeService JNull, \<lparr>sessions = Map.empty\<rparr>)"
proof -
  let ?P = "\<lambda>d. if d = ''F'' then Some (JObj [(''type'', JStr ''foo'')]) else None"
  let ?env = "\<lparr>env_now = 5, event_id1 = ''e1'', event_id2 = ''e2''\<rparr>"
  let ?ctx = "\<lparr>ctx_sessionId = ''s1'', ctx_userId = ''u'', authenticated = False,
                connectionTime = 0\<rparr>"
  have op: "closed (new_client_ws 1) = None"
    by (simp add: new_client_ws_def)
  have "?P ''{'' = None"
    by simp
  with invalid_and_unknown_frames [OF op, of ?P "''{''" ?env ?ctx]
  have a: "handleMessage ?P ?env ''{'' ?ctx
      (new_client_ws 1, new_OpenAIRealtimeService JNull, \<lparr>sessions = Map.empty\<rparr>)
    = ((new_client_ws 1)\<lparr>sent :=
          [\<lparr>frame_type = ''error'',
            payload = Some (JObj [(''message'', JStr ''Invalid message format'')]),
            timestamp = 5, frame_sessionId = ''s1''\<rparr>]\<rparr>,
       new_OpenAIRealtimeService JNull, \<lparr>sessions = Map.empty\<rparr>)"
    by (simp add: new_client_ws_def)
  have "?P ''F'' = Some (JObj [(''type'', JStr ''foo'')])
      \<and> map_of [(''type'', JStr ''foo'')] ''type'' = Some (JStr ''foo'')
      \<and> ''foo'' \<notin> recognized_types"
    by (simp add: recognized_types_def)
  with invalid_and_unknown_frames [OF op, of ?P "''F''" ?env ?ctx
      "new_OpenAIRealtimeService JNull" "\<lparr>sessions = Map.empty\<rparr>"]
  have b: "handleMessage ?P ?env ''F'' ?ctx
      (new_client_ws 1, new_OpenAIRealtimeService JNull, \<lparr>sessions = Map.empty\<rparr>)
    = ((new_client_ws 1)\<lparr>sent :=
          [\<lparr>frame_type = ''error'',
            payload = Some (JObj [(''message'', JStr (''Unknown message type: '' @ ''foo''))]),
            timestamp = 5, frame_sessionId = ''s1''\<rparr>]\<rparr>,
       new_OpenAIRealtimeService JNull,
       updateActivity 5 ''s1'' \<lparr>sessions = Map.empty\<rparr>)"
    by (simp add: new_client_ws_def)
  from a b show ?thesis
    by (simp add: updateActivity_def)
qed

text \<open>
  C10. For a parsed frame of type \<open>openai_event\<close> with a truthy payload, if \<open>sendEvent\<close>
  raises on the payload, the handler sends on the open inbound socket one frame of type
  \<open>error\<close> whose payload is \<open>{message: "Invalid message format"}\<close>, the frame a malformed
  input gets: the socket ends in the state the same handler leaves for input that does not
  parse. The socket is not closed.
\<close>

theorem forwarding_failure_reported_as_invalid_format:
  assumes "closed sock = None"
    and "JSON_parse data = Some message"
    and "get_prop message ''type'' = Some (JStr ''openai_event'')"
    and "get_prop message ''payload'' = Some event" and "truthy event"
    and "fst (sendEvent (event_id1 env) event svc) = Inl e"
  shows "fst (handleMessage JSON_parse env data ctx (sock, svc, reg))
        = sock\<lparr>sent := sent sock
            @ [\<lparr>frame_type = ''error'',
                payload = Some (JObj [(''message'', JStr ''Invalid message format'')]),
                timestamp = env_now env, frame_sessionId = ctx_sessionId ctx\<rparr>]\<rparr>
    \<and> fst (handleMessage JSON_parse env data ctx (sock, svc, reg))
        = fst (handleMessage (\<lambda>d. None) env data ctx (sock, svc, reg))
    \<and> closed (fst (handleMessage JSON_parse env data ctx (sock, svc, reg))) = None"
proof -
  have "handleMessage JSON_parse env data ctx (sock, svc, reg)
       = (ws_send (error_frame (env_now env) (ctx_sessionId ctx) ''Invalid message format'') sock,
          snd (sendEvent (event_id1 env) event svc),
          updateActivity (env_now env) (ctx_sessionId ctx) reg)"
    using assms(2-6) by (rule handleMessage_forward_failure)
  with assms(1) show ?thesis
    by (simp add: handleMessage_parse_error ws_send_open error_frame_def)
qed

theorem forwarding_failure_reported_as_invalid_format_witness:
  "fst (handleMessage
      (\<lambda>d. Some (JObj [(''type'', JStr ''openai_event''),
                        (''payload'', JObj [(''type'', JStr ''response.create'')])]))
      \<lparr>env_now = 5, event_id1 = ''e1'', event_id2 = ''e2''\<rparr> ''F''
      \<lparr>ctx_sessionId = ''s1'', ctx_userId = ''u'', authenticated = False, connectionTime = 0\<rparr>
      (new_client_ws 1, new_OpenAIRealtimeService JNull, \<lparr>sessions = Map.empty\<rparr>))
    = (new_client_ws 1)\<lparr>sent :=
        [\<lparr>frame_type = ''error'',
          payload = Some (JObj [(''message'', JStr ''Invalid message format'')]),
          timestamp = 5, frame_sessionId = ''s1''\<rparr>]\<rparr>"
proof -
  have op: "closed (new_client_ws 1) = None"
    by (simp add: new_client_ws_def)
  have nc: "fst (sendEvent (event_id1 \<lparr>env_now = 5, event_id1 = ''e1'', event_id2 = ''e2''\<rparr>)
              (JObj [(''type'', JStr ''response.create'')]) (new_OpenAIRealtimeService JNull))
            = Inl (Error ''Not connected to OpenAI Realtime API'')"
    by (simp add: sendEvent_not_connected new_OpenAIRealtimeService_def)
  have ty: "get_prop (JObj [(''type'', JStr ''openai_event''),
                        (''payload'', JObj [(''type'', JStr ''response.create'')])]) ''type''
            = Some (JStr ''openai_event'')"
    by simp
  have pl: "get_prop (JObj [(''type'', JStr ''openai_event''),
                        (''payload'', JObj [(''type'', JStr ''response.create'')])]) ''payload''
            = Some (JObj [(''type'', JStr ''response.create'')])"
    by simp
  have tr: "truthy (JObj [(''type'', JStr ''response.create'')])"
    by simp
  from op ty pl tr nc
    forwarding_failure_reported_as_invalid_format
      [where JSON_parse = "\<lambda>d. Some (JObj [(''type'', JStr ''openai_event''),
                        (''payload'', JObj [(''type'', JStr ''response.create'')])])"
        and message = "JObj [(''type'', JStr ''openai_event''),
                        (''payload'', JObj [(''type'', JStr ''response.create'')])]"
        and data = "''F''" and sock = "new_client_ws 1"
        and event = "JObj [(''type'', JStr ''response.create'')]"
        and env = "\<lparr>env_now = 5, event_id1 = ''e1'', event_id2 = ''e2''\<rparr>"
        and svc = "new_OpenAIRealtimeService JNull"
        and e = "Error ''Not connected to OpenAI Realtime API''"
        and ctx = "\<lparr>ctx_sessionId = ''s1'', ctx_userId = ''u'', authenticated = False,
                     connectionTime = 0\<rparr>"
        and reg = "\<lparr>sessions = Map.empty\<rparr>"]
  show ?thesis
    by (simp add: new_client_ws_def)
qed

section \<open>Properties of the connection gateway\<close>

text \<open>
  C2, evaluated: a connection without a token whose upstream handshake times out. The
  inbound socket gets the error frame and is closed with 1011, but no listener was
  registered on it, so its close event runs no cleanup: the session that
  \<open>authenticateConnection\<close> created is still in the registry, and so are the service and the
  context in their maps.
\<close>

theorem failed_setup_keeps_session:
  "fst (handleConnection
          \<lparr>conn_now = 7, gen_connectionId = ''conn_1'', gen_sessionId = ''sess_1'',
           gen_demoUserId = ''demo_user_7'', gen_eventId = ''event_1'',
           service_ctor_raises = False, service_cfg = JObj [],
           upstream_outcome = HandshakeTimeout\<rparr>
          \<lparr>query_token = None, authorization = None\<rparr>
          (new_client_ws 1, server_initial))
     = \<lparr>ws_id = 1,
        sent = [\<lparr>frame_type = ''error'',
                 payload = Some (JObj [(''message'', JStr ''Failed to initialize AI service'')]),
                 timestamp = 7, frame_sessionId = ''sess_1''\<rparr>],
        closed = Some (1011, ''Service initialization failed''), listeners = False\<rparr>
   \<and> sessions (registry (emit_close
        (fst (handleConnection
          \<lparr>conn_now = 7, gen_connectionId = ''conn_1'', gen_sessionId = ''sess_1'',
           gen_demoUserId = ''demo_user_7'', gen_eventId = ''event_1'',
           service_ctor_raises = False, service_cfg = JObj [],
           upstream_outcome = HandshakeTimeout\<rparr>
          \<lparr>query_token = None, authorization = None\<rparr>
          (new_client_ws 1, server_initial)))
        \<lparr>ctx_sessionId = ''sess_1'', ctx_userId = ''demo_user_7'', authenticated = False,
          connectionTime = 7\<rparr>
        (snd (handleConnection
          \<lparr>conn_now = 7, gen_connectionId = ''conn_1'', gen_sessionId = ''sess_1'',
           gen_demoUserId = ''demo_user_7'', gen_eventId = ''event_1'',
           service_ctor_raises = False, service_cfg = JObj [],
           upstream_outcome = HandshakeTimeout\<rparr>
          \<lparr>query_token = None, authorization = None\<rparr>
          (new_client_ws 1, server_initial))))) ''sess_1''
     = Some \<lparr>session_id = ''sess_1'', userId = ''demo_user_7'', connectionId = ''conn_1'',
              createdAt = 7, lastActivity = 7, status = active\<rparr>"
  by (simp add: handleConnection_def authenticateConnection_def extractTokenFromRequest_def
      createSession_def setupAuthenticatedConnection_def setup_failed_def new_client_ws_def
      server_initial_def new_OpenAIRealtimeService_def setEventHandlers_def
      service_connect_def ws_send_def ws_close_def error_frame_def emit_close_def Let_def)

section \<open>Properties of the conversation messages\<close>

lemma messages_updateMessage:
  "messages (updateMessage k u s)
     = map (\<lambda>msg. if msg_id msg = k then apply_updates u msg else msg) (messages s)"
  by (simp add: updateMessage_def)

lemma length_updateMessage: "length (messages (updateMessage k u s)) = length (messages s)"
  by (simp add: updateMessage_def)

lemma nth_updateMessage:
  "i < length (messages s) \<Longrightarrow>
     messages (updateMessage k u s) ! i
       = (if msg_id (messages s ! i) = k then apply_updates u (messages s ! i)
          else messages s ! i)"
  by (simp add: updateMessage_def)

lemma other_updateMessage:
  "currentAIResponseRef (updateMessage k u s) = currentAIResponseRef s"
  "effects (updateMessage k u s) = effects s"
  "isAIResponding (updateMessage k u s) = isAIResponding s"
  by (simp_all add: updateMessage_def)

lemma updateMessage_cong:
  "messages s1 = messages s \<Longrightarrow> messages (updateMessage k u s1) = messages (updateMessage k u s)"
  by (simp add: updateMessage_def)

lemma msg_id_apply_updates: "msg_id (apply_updates u m) = msg_id m"
  by (simp add: apply_updates_def Let_def split: option.splits)

lemma msg_status_apply_updates:
  "msg_status (apply_updates u m) = (case new_status u of None \<Rightarrow> msg_status m | Some st \<Rightarrow> st)"
  by (simp add: apply_updates_def Let_def split: option.splits)

lemma messages_addMessage: "messages (addMessage m s) = messages s @ [m]"
  by (simp add: addMessage_def)

lemma messages_simple:
  "messages (updateAIRespondingState b s) = messages s"
  "messages (onError e s) = messages s"
  "currentAIResponseRef (updateAIRespondingState b s) = currentAIResponseRef s"
  "currentAIResponseRef (onError e s) = currentAIResponseRef s"
  "currentAIResponseRef (addMessage m s) = currentAIResponseRef s"
  by (simp_all add: updateAIRespondingState_def onError_def addMessage_def)

lemma message_step_refl: "message_step a s s"
  by (simp add: message_step_def)

lemma step_on_response_created: "message_step a s (on_response_created s)"
  by (simp add: message_step_def on_response_created_def Let_def messages_simple)

lemma step_on_output_item_added: "message_step a s (on_output_item_added a now e s)"
  by (simp add: message_step_def on_output_item_added_def messages_addMessage messages_simple
      split: option.splits)

lemma step_on_delta: "message_step a s (on_delta e s)"
proof (cases "currentAIResponseRef s")
  case None
  then show ?thesis
    by (simp add: message_step_def on_delta_def)
next
  case (Some c)
  show ?thesis
  proof (cases "\<exists>d. ev_delta e = Some d \<and> d \<noteq> []")
    case False
    with Some show ?thesis
      by (auto simp: message_step_def on_delta_def split: option.splits)
  next
    case True
    then obtain d where d: "ev_delta e = Some d" "d \<noteq> []"
      by blast
    let ?u = "\<lparr>new_content = Some (cur_content c @ d), new_status = Some status_receiving\<rparr>"
    have m: "messages (on_delta e s) = messages (updateMessage (cur_id c) ?u s)"
      using Some d by (simp add: on_delta_def Let_def updateMessage_def)
    have r: "currentAIResponseRef (on_delta e s) = Some (c\<lparr>cur_content := cur_content c @ d\<rparr>)"
      using Some d by (simp add: on_delta_def Let_def updateMessage_def)
    have "\<exists>u c'. currentAIResponseRef s = Some c'
           \<and> messages (on_delta e s) = messages (updateMessage (cur_id c') u s)
           \<and> new_status u \<in> {Some status_receiving, Some status_completed, Some status_error}
           \<and> (case currentAIResponseRef (on_delta e s) of None \<Rightarrow> True
               | Some c'' \<Rightarrow> cur_id c'' = cur_id c')"
      using Some m r by (intro exI [of _ ?u] exI [of _ c]) simp
    then show ?thesis
      unfolding message_step_def by blast
  qed
qed

lemma step_update_tracked:
  assumes "currentAIResponseRef s = Some c"
    and "messages s' = messages (updateMessage (cur_id c) u s)"
    and "new_status u \<in> {Some status_receiving, Some status_completed, Some status_error}"
    and "currentAIResponseRef s' = None \<or> currentAIResponseRef s' = Some c"
  shows "message_step a s s'"
proof -
  have "\<exists>u c'. currentAIResponseRef s = Some c'
           \<and> messages s' = messages (updateMessage (cur_id c') u s)
           \<and> new_status u \<in> {Some status_receiving, Some status_completed, Some status_error}
           \<and> (case currentAIResponseRef s' of None \<Rightarrow> True
               | Some c'' \<Rightarrow> cur_id c'' = cur_id c')"
    using assms by (intro exI [of _ u] exI [of _ c]) auto
  then show ?thesis
    unfolding message_step_def by blast
qed

lemma step_on_text_done: "message_step a s (on_text_done e s)"
proof (cases "currentAIResponseRef s")
  case None
  then show ?thesis
    by (simp add: message_step_def on_text_done_def)
next
  case (Some c)
  show ?thesis
  proof (cases "\<exists>t. ev_text e = Some t \<and> t \<noteq> []")
    case False
    with Some show ?thesis
      by (auto simp: message_step_def on_text_done_def split: option.splits)
  next
    case True
    then obtain t where t: "ev_text e = Some t" "t \<noteq> []"
      by blast
    show ?thesis
      by (rule step_update_tracked [OF Some,
            of _ "\<lparr>new_content = Some t, new_status = Some status_completed\<rparr>"])
         (use Some t in \<open>simp_all add: on_text_done_def other_updateMessage\<close>)
  qed
qed

lemma step_on_audio_delta: "message_step a s (on_audio_delta e s)"
  by (simp add: message_step_def on_audio_delta_def split: option.splits)

lemma step_on_audio_transcript_done: "message_step a s (on_audio_transcript_done e s)"
proof (cases "currentAIResponseRef s")
  case None
  then show ?thesis
    by (simp add: message_step_def on_audio_transcript_done_def)
next
  case (Some c)
  show ?thesis
  proof (cases "\<exists>t. ev_transcript e = Some t \<and> t \<noteq> []")
    case False
    with Some show ?thesis
      by (auto simp: message_step_def on_audio_transcript_done_def split: option.splits)
  next
    case True
    then obtain t where t: "ev_transcript e = Some t" "t \<noteq> []"
      by blast
    show ?thesis
      by (rule step_update_tracked [OF Some,
            of _ "\<lparr>new_content = Some t, new_status = Some status_completed\<rparr>"])
         (use Some t in \<open>simp_all add: on_audio_transcript_done_def Let_def other_updateMessage\<close>)
  qed
qed

lemma step_on_response_done: "message_step a s (on_response_done s)"
proof (cases "currentAIResponseRef s")
  case None
  then show ?thesis
    by (simp add: message_step_def on_response_done_def Let_def messages_simple)
next
  case (Some c)
  let ?u = "\<lparr>new_content = None, new_status = Some status_completed\<rparr>"
  have "messages (updateMessage (cur_id c) ?u (updateAIRespondingState False s))
      = messages (updateMessage (cur_id c) ?u s)"
    by (rule updateMessage_cong) (simp add: messages_simple)
  with Some have m: "messages (on_response_done s) = messages (updateMessage (cur_id c) ?u s)"
    by (simp add: on_response_done_def Let_def messages_simple)
  from Some have r: "currentAIResponseRef (on_response_done s) = None"
    by (simp add: on_response_done_def Let_def messages_simple)
  from Some m r show ?thesis
    by (intro step_update_tracked [of s c _ ?u]) simp_all
qed

lemma step_on_error_event: "message_step a s (on_error_event e s)"
proof (cases "currentAIResponseRef s")
  case None
  then show ?thesis
    by (simp add: message_step_def on_error_event_def Let_def messages_simple)
next
  case (Some c)
  let ?u = "\<lparr>new_content = Some (if cur_content c = [] then lit ''Error generating response''
                                  else cur_content c),
             new_status = Some status_error\<rparr>"
  let ?s2 = "onError (case ev_error e of None \<Rightarrow> ''Unknown OpenAI error occurred''
                       | Some m \<Rightarrow> or_else m ''Unknown OpenAI error occurred'')
               (updateAIRespondingState False s)"
  have "messages (updateMessage (cur_id c) ?u ?s2) = messages (updateMessage (cur_id c) ?u s)"
    by (rule updateMessage_cong) (simp add: messages_simple)
  with Some have m: "messages (on_error_event e s) = messages (updateMessage (cur_id c) ?u s)"
    by (simp add: on_error_event_def Let_def messages_simple)
  from Some have r: "currentAIResponseRef (on_error_event e s) = None"
    by (simp add: on_error_event_def Let_def messages_simple)
  from Some m r show ?thesis
    by (intro step_update_tracked [of s c _ ?u]) simp_all
qed

lemma step_handleOpenAIEvent: "message_step a s (handleOpenAIEvent a now e s)"
  by (simp add: handleOpenAIEvent_def message_step_refl step_on_response_created
      step_on_output_item_added step_on_delta step_on_text_done step_on_audio_delta
      step_on_audio_transcript_done step_on_response_done step_on_error_event)

lemma message_step_length:
  "message_step a s s' \<Longrightarrow> length (messages s) \<le> length (messages s')"
  by (auto simp: message_step_def length_updateMessage)

lemma message_step_untracked:
  assumes "message_step a s s'" and "i < length (messages s)"
    and "\<not> tracked s (messages s ! i)"
  shows "messages s' ! i = messages s ! i"
  using assms by (auto simp: message_step_def tracked_def nth_updateMessage nth_append)

lemma message_step_status:
  assumes "message_step a s s'" and "i < length (messages s)"
  shows "msg_id (messages s' ! i) = msg_id (messages s ! i)
     \<and> msg_status (messages s' ! i)
         \<in> {msg_status (messages s ! i), status_receiving, status_completed, status_error}"
  using assms
  by (auto simp: message_step_def nth_updateMessage nth_append msg_id_apply_updates
      msg_status_apply_updates)

lemma message_step_current:
  assumes "message_step a s s'" and "currentAIResponseRef s' = Some c'"
  shows "cur_id c' = a \<or> (\<exists>c. currentAIResponseRef s = Some c \<and> cur_id c = cur_id c')"
proof -
  from assms(1) consider
      (same) "currentAIResponseRef s' = currentAIResponseRef s \<or> currentAIResponseRef s' = None"
    | (upd) c where "currentAIResponseRef s = Some c"
        "case currentAIResponseRef s' of None \<Rightarrow> True | Some c' \<Rightarrow> cur_id c' = cur_id c"
    | (app) c'' where "currentAIResponseRef s' = Some c''" "cur_id c'' = a"
    unfolding message_step_def by (elim disjE conjE exE) auto
  then show ?thesis
  proof cases
    case same
    with assms(2) have "currentAIResponseRef s = Some c'"
      by auto
    then show ?thesis
      by simp
  next
    case upd
    with assms(2) show ?thesis
      by simp
  next
    case app
    with assms(2) show ?thesis
      by simp
  qed
qed

lemma release_handleOpenAIEvent:
  "ev_type e = ''response.done'' \<or> ev_type e = ''error'' \<Longrightarrow>
     currentAIResponseRef (handleOpenAIEvent a now e s) = None"
  by (auto simp: handleOpenAIEvent_def on_response_done_def on_error_event_def Let_def
      messages_simple other_updateMessage split: option.splits)

lemma apply_status_only:
  "apply_updates \<lparr>new_content = None, new_status = Some st\<rparr> m = m\<lparr>msg_status := st\<rparr>"
  by (simp add: apply_updates_def)

lemma sendTextMessage_invalid:
  assumes "trim text = [] \<or> length text > 1000"
  shows "messages (sendTextMessage f mid now text s) = messages s
    \<and> currentAIResponseRef (sendTextMessage f mid now text s) = currentAIResponseRef s
    \<and> (\<exists>msg. effects (sendTextMessage f mid now text s) = effects s @ [OnErrorText msg])"
  using assms by (auto simp: sendTextMessage_def onError_def)

lemma set_status_twice:
  "map (\<lambda>msg. if msg_id msg = k then msg\<lparr>msg_status := b\<rparr> else msg)
     (map (\<lambda>msg. if msg_id msg = k then msg\<lparr>msg_status := a\<rparr> else msg) xs)
   = map (\<lambda>msg. if msg_id msg = k then msg\<lparr>msg_status := b\<rparr> else msg) xs"
  by (induction xs) simp_all

lemma sendTextMessage_valid:
  assumes "trim text \<noteq> []" and "length text \<le> 1000"
  shows "\<exists>st rest. st \<in> {status_sent, status_error}
    \<and> messages (sendTextMessage f mid now text s)
        = map (\<lambda>m. if msg_id m = mid then m\<lparr>msg_status := st\<rparr> else m)
            (messages s @ [\<lparr>msg_id = mid, content = trim text, msg_sender = user,
                             msg_timestamp = now, msg_status = status_sending\<rparr>])
    \<and> effects (sendTextMessage f mid now text s)
        = effects s @ OnMessage \<lparr>msg_id = mid, content = trim text, msg_sender = user,
                                 msg_timestamp = now, msg_status = status_sending\<rparr>
            # Sent \<lparr>wsm_payload = ConversationItemCreate (trim text), wsm_timestamp = now\<rparr>
            # rest
    \<and> currentAIResponseRef (sendTextMessage f mid now text s) = currentAIResponseRef s"
proof (cases "f \<lparr>wsm_payload = ConversationItemCreate (trim text), wsm_timestamp = now\<rparr>")
  case SendOk
  show ?thesis
  proof (cases "f \<lparr>wsm_payload = ResponseCreate [''text''], wsm_timestamp = now\<rparr>")
    case SendOk
    with \<open>f \<lparr>wsm_payload = ConversationItemCreate (trim text), wsm_timestamp = now\<rparr> = SendOk\<close>
      assms
    show ?thesis
      by (intro exI [of _ status_sent])
         (simp add: sendTextMessage_def Let_def call_send_def addMessage_def updateMessage_def
            updateAIRespondingState_def apply_status_only)
  next
    case SendRejected
    with \<open>f \<lparr>wsm_payload = ConversationItemCreate (trim text), wsm_timestamp = now\<rparr> = SendOk\<close>
      assms
    show ?thesis
      by (intro exI [of _ status_error])
         (simp add: sendTextMessage_def Let_def call_send_def addMessage_def updateMessage_def
            onError_def apply_status_only set_status_twice)
  next
    case (SendRaised err)
    with \<open>f \<lparr>wsm_payload = ConversationItemCreate (trim text), wsm_timestamp = now\<rparr> = SendOk\<close>
      assms
    show ?thesis
      by (intro exI [of _ status_error])
         (simp add: sendTextMessage_def Let_def call_send_def addMessage_def updateMessage_def
            onError_def apply_status_only set_status_twice)
  qed
next
  case SendRejected
  with assms show ?thesis
    by (intro exI [of _ status_error])
       (simp add: sendTextMessage_def Let_def call_send_def addMessage_def updateMessage_def
          onError_def apply_status_only)
next
  case (SendRaised err)
  with assms show ?thesis
    by (intro exI [of _ status_error])
       (simp add: sendTextMessage_def Let_def call_send_def addMessage_def updateMessage_def
          onError_def apply_status_only)
qed

lemma sendTextMessage_others:
  assumes "i < length (messages s)" and "msg_id (messages s ! i) \<noteq> mid"
  shows "i < length (messages (sendTextMessage f mid now text s))
    \<and> messages (sendTextMessage f mid now text s) ! i = messages s ! i"
proof (cases "trim text = [] \<or> length text > 1000")
  case True
  with sendTextMessage_invalid [OF True, of f mid now s] assms show ?thesis
    by simp
next
  case False
  then have "trim text \<noteq> []" and "length text \<le> 1000"
    by simp_all
  from sendTextMessage_valid [OF this, of f mid now s] assms show ?thesis
    by (auto simp: nth_append)
qed

lemma hook_step_frozen:
  assumes "i < length (messages s)" and "\<not> tracked s (messages s ! i)"
    and "generated_id call \<noteq> msg_id (messages s ! i)"
  shows "i < length (messages (hook_step call s))
    \<and> messages (hook_step call s) ! i = messages s ! i
    \<and> \<not> tracked (hook_step call s) (messages s ! i)"
proof (cases call)
  case (SendText f mid now body)
  have "currentAIResponseRef (sendTextMessage f mid now body s) = currentAIResponseRef s"
  proof (cases "trim body = [] \<or> length body > 1000")
    case True
    then show ?thesis
      using sendTextMessage_invalid [of body f mid now s] by simp
  next
    case False
    then show ?thesis
      using sendTextMessage_valid [of body f mid now s] by auto
  qed
  with SendText assms sendTextMessage_others [of i s mid f now body] show ?thesis
    by (simp add: tracked_def)
next
  case (Event a now e)
  have st: "message_step a s (handleOpenAIEvent a now e s)"
    by (rule step_handleOpenAIEvent)
  from message_step_length [OF st] assms(1)
  have l: "i < length (messages (handleOpenAIEvent a now e s))"
    by simp
  from message_step_untracked [OF st assms(1,2)]
  have u: "messages (handleOpenAIEvent a now e s) ! i = messages s ! i" .
  have t: "\<not> tracked (handleOpenAIEvent a now e s) (messages s ! i)"
  proof
    assume "tracked (handleOpenAIEvent a now e s) (messages s ! i)"
    then obtain c' where c': "currentAIResponseRef (handleOpenAIEvent a now e s) = Some c'"
        "msg_id (messages s ! i) = cur_id c'"
      by (auto simp: tracked_def split: option.splits)
    from message_step_current [OF st c'(1)] c'(2) assms(2,3) Event show False
      by (auto simp: tracked_def)
  qed
  from l u t Event show ?thesis
    by simp
qed

lemma hook_run_frozen:
  "i < length (messages s) \<Longrightarrow> \<not> tracked s (messages s ! i) \<Longrightarrow>
   msg_id (messages s ! i) \<in> set used \<Longrightarrow> fresh_ids calls used \<Longrightarrow>
     i < length (messages (hook_run calls s))
     \<and> messages (hook_run calls s) ! i = messages s ! i"
proof (induction calls arbitrary: s used)
  case Nil
  then show ?case by simp
next
  case (Cons c cs)
  from Cons.prems have ne: "generated_id c \<noteq> msg_id (messages s ! i)"
    by auto
  from hook_step_frozen [OF Cons.prems(1,2) ne]
  have a: "i < length (messages (hook_step c s))"
    and b: "messages (hook_step c s) ! i = messages s ! i"
    and t: "\<not> tracked (hook_step c s) (messages s ! i)"
    by simp_all
  from Cons.prems(3) b have "msg_id (messages (hook_step c s) ! i) \<in> set (generated_id c # used)"
    by simp
  moreover from Cons.prems(4) have "fresh_ids cs (generated_id c # used)"
    by simp
  moreover from t b have "\<not> tracked (hook_step c s) (messages (hook_step c s) ! i)"
    by simp
  ultimately have "i < length (messages (hook_run cs (hook_step c s)))
     \<and> messages (hook_run cs (hook_step c s)) ! i = messages (hook_step c s) ! i"
    using a by (intro Cons.IH)
  with b show ?case
    by simp
qed

lemmas hook_eval =
  hook_initial_def bare_event_def assistant_item_added_def handleOpenAIEvent_def
  on_response_created_def on_output_item_added_def on_delta_def on_text_done_def
  on_audio_delta_def on_audio_transcript_done_def on_response_done_def on_error_event_def
  addMessage_def updateMessage_def apply_updates_def updateAIRespondingState_def onError_def
  or_else_def Let_def

text \<open>
  C3, as the claim words it, fails. After \<open>response.text.done\<close> has marked the tracked message
  completed, the message is still the tracked one: a further delta sets it back to
  \<open>receiving\<close>, and an error event sets it to \<open>error\<close>.
\<close>

theorem completed_message_changes_again:
  "map msg_status (messages (hook_run
      [Event ''ai_1'' 1 assistant_item_added,
       Event ''ai_2'' 2 ((bare_event ''response.text.done'')\<lparr>ev_text := Some [0x68, 0x69]\<rparr>)]
      hook_initial)) = [status_completed]
   \<and> map msg_status (messages (hook_run
      [Event ''ai_1'' 1 assistant_item_added,
       Event ''ai_2'' 2 ((bare_event ''response.text.done'')\<lparr>ev_text := Some [0x68, 0x69]\<rparr>),
       Event ''ai_3'' 3 ((bare_event ''response.text.delta'')\<lparr>ev_delta := Some [0x21]\<rparr>)]
      hook_initial)) = [status_receiving]
   \<and> map msg_status (messages (hook_run
      [Event ''ai_1'' 1 assistant_item_added,
       Event ''ai_2'' 2 ((bare_event ''response.text.done'')\<lparr>ev_text := Some [0x68, 0x69]\<rparr>),
       Event ''ai_3'' 3 (bare_event ''error'')]
      hook_initial)) = [status_error]"
  by (simp add: hook_eval)

lemma tracked_current:
  assumes "tracked s m"
  obtains c where "currentAIResponseRef s = Some c" and "msg_id m = cur_id c"
  using assms by (auto simp: tracked_def split: option.splits)

lemma tracked_on_delta:
  assumes "i < length (messages s)" and "tracked s (messages s ! i)"
    and "ev_delta e = Some d" and "d \<noteq> []"
  shows "msg_status (messages (on_delta e s) ! i) = status_receiving"
proof -
  from assms(2) obtain c where c: "currentAIResponseRef s = Some c"
      "msg_id (messages s ! i) = cur_id c"
    by (rule tracked_current)
  with assms(1,3,4) show ?thesis
    by (simp add: on_delta_def Let_def updateMessage_def apply_updates_def)
qed

lemma tracked_on_text_done:
  assumes "i < length (messages s)" and "tracked s (messages s ! i)"
    and "ev_text e = Some t" and "t \<noteq> []"
  shows "msg_status (messages (on_text_done e s) ! i) = status_completed"
proof -
  from assms(2) obtain c where c: "currentAIResponseRef s = Some c"
      "msg_id (messages s ! i) = cur_id c"
    by (rule tracked_current)
  with assms(1,3,4) show ?thesis
    by (simp add: on_text_done_def updateMessage_def apply_updates_def)
qed

lemma tracked_on_audio_transcript_done:
  assumes "i < length (messages s)" and "tracked s (messages s ! i)"
    and "ev_transcript e = Some t" and "t \<noteq> []"
  shows "msg_status (messages (on_audio_transcript_done e s) ! i) = status_completed"
proof -
  from assms(2) obtain c where c: "currentAIResponseRef s = Some c"
      "msg_id (messages s ! i) = cur_id c"
    by (rule tracked_current)
  with assms(1,3,4) show ?thesis
    by (simp add: on_audio_transcript_done_def Let_def updateMessage_def apply_updates_def)
qed

lemma tracked_on_response_done:
  assumes "i < length (messages s)" and "tracked s (messages s ! i)"
  shows "msg_status (messages (on_response_done s) ! i) = status_completed"
proof -
  from assms(2) obtain c where c: "currentAIResponseRef s = Some c"
      "msg_id (messages s ! i) = cur_id c"
    by (rule tracked_current)
  with assms(1) show ?thesis
    by (simp add: on_response_done_def Let_def updateMessage_def apply_updates_def
        updateAIRespondingState_def)
qed

lemma tracked_on_error_event:
  assumes "i < length (messages s)" and "tracked s (messages s ! i)"
  shows "msg_status (messages (on_error_event e s) ! i) = status_error"
proof -
  from assms(2) obtain c where c: "currentAIResponseRef s = Some c"
      "msg_id (messages s ! i) = cur_id c"
    by (rule tracked_current)
  with assms(1) show ?thesis
    by (simp add: on_error_event_def Let_def updateMessage_def apply_updates_def
        updateAIRespondingState_def onError_def)
qed

lemma no_write:
  "messages (on_response_created s) = messages s"
  "messages (on_audio_delta e s) = messages s"
  "ev_delta e = None \<or> ev_delta e = Some [] \<Longrightarrow> on_delta e s = s"
  "ev_text e = None \<or> ev_text e = Some [] \<Longrightarrow> on_text_done e s = s"
  "ev_transcript e = None \<or> ev_transcript e = Some [] \<Longrightarrow> on_audio_transcript_done e s = s"
  by (auto simp: on_response_created_def on_audio_delta_def on_delta_def on_text_done_def
      on_audio_transcript_done_def Let_def updateAIRespondingState_def split: option.splits)

lemma nth_on_output_item_added:
  "i < length (messages s) \<Longrightarrow>
     messages (on_output_item_added a now e s) ! i = messages s ! i"
  by (simp add: on_output_item_added_def addMessage_def nth_append split: option.splits)

lemma handleOpenAIEvent_no_write:
  assumes "i < length (messages s)"
    and "\<not> ((ev_type e = ''response.text.delta'' \<or> ev_type e = ''response.audio_transcript.delta'')
            \<and> ev_delta e \<noteq> None \<and> ev_delta e \<noteq> Some [])"
    and "\<not> (ev_type e = ''response.text.done'' \<and> ev_text e \<noteq> None \<and> ev_text e \<noteq> Some [])"
    and "\<not> (ev_type e = ''response.audio_transcript.done''
            \<and> ev_transcript e \<noteq> None \<and> ev_transcript e \<noteq> Some [])"
    and "ev_type e \<noteq> ''response.done''" and "ev_type e \<noteq> ''error''"
  shows "messages (handleOpenAIEvent a now e s) ! i = messages s ! i"
  using assms by (auto simp: handleOpenAIEvent_def no_write nth_on_output_item_added)

lemma sendTextMessage_final_status:
  assumes "trim body \<noteq> []" and "length body \<le> 1000"
  shows "msg_status (last (messages (sendTextMessage f mid now body s)))
     = (if f \<lparr>wsm_payload = ConversationItemCreate (trim body), wsm_timestamp = now\<rparr> = SendOk
           \<and> f \<lparr>wsm_payload = ResponseCreate [''text''], wsm_timestamp = now\<rparr> = SendOk
        then status_sent else status_error)"
  using assms
  by (cases "f \<lparr>wsm_payload = ConversationItemCreate (trim body), wsm_timestamp = now\<rparr>";
      cases "f \<lparr>wsm_payload = ResponseCreate [''text''], wsm_timestamp = now\<rparr>")
     (simp_all add: sendTextMessage_def Let_def call_send_def addMessage_def updateMessage_def
        onError_def updateAIRespondingState_def apply_status_only)

lemma handle_delta_status:
  assumes "i < length (messages s)" and "tracked s (messages s ! i)"
    and "ev_type e = ''response.text.delta'' \<or> ev_type e = ''response.audio_transcript.delta''"
    and "ev_delta e \<noteq> None" and "ev_delta e \<noteq> Some []"
  shows "msg_status (messages (handleOpenAIEvent a now e s) ! i) = status_receiving"
proof -
  from assms(4,5) obtain d where d: "ev_delta e = Some d" "d \<noteq> []"
    by auto
  from assms(3) have "handleOpenAIEvent a now e s = on_delta e s"
    by (auto simp: handleOpenAIEvent_def)
  with tracked_on_delta [OF assms(1,2) d] show ?thesis
    by simp
qed

lemma handle_text_done_status:
  assumes "i < length (messages s)" and "tracked s (messages s ! i)"
    and "ev_type e = ''response.text.done''"
    and "ev_text e \<noteq> None" and "ev_text e \<noteq> Some []"
  shows "msg_status (messages (handleOpenAIEvent a now e s) ! i) = status_completed"
proof -
  from assms(4,5) obtain t where t: "ev_text e = Some t" "t \<noteq> []"
    by auto
  from assms(3) have "handleOpenAIEvent a now e s = on_text_done e s"
    by (simp add: handleOpenAIEvent_def)
  with tracked_on_text_done [OF assms(1,2) t] show ?thesis
    by simp
qed

lemma handle_transcript_done_status:
  assumes "i < length (messages s)" and "tracked s (messages s ! i)"
    and "ev_type e = ''response.audio_transcript.done''"
    and "ev_transcript e \<noteq> None" and "ev_transcript e \<noteq> Some []"
  shows "msg_status (messages (handleOpenAIEvent a now e s) ! i) = status_completed"
proof -
  from assms(4,5) obtain t where t: "ev_transcript e = Some t" "t \<noteq> []"
    by auto
  from assms(3) have "handleOpenAIEvent a now e s = on_audio_transcript_done e s"
    by (simp add: handleOpenAIEvent_def)
  with tracked_on_audio_transcript_done [OF assms(1,2) t] show ?thesis
    by simp
qed

lemma handle_response_done_status:
  assumes "i < length (messages s)" and "tracked s (messages s ! i)"
    and "ev_type e = ''response.done''"
  shows "msg_status (messages (handleOpenAIEvent a now e s) ! i) = status_completed"
proof -
  from assms(3) have "handleOpenAIEvent a now e s = on_response_done s"
    by (simp add: handleOpenAIEvent_def)
  with tracked_on_response_done [OF assms(1,2)] show ?thesis
    by simp
qed

lemma handle_error_status:
  assumes "i < length (messages s)" and "tracked s (messages s ! i)"
    and "ev_type e = ''error''"
  shows "msg_status (messages (handleOpenAIEvent a now e s) ! i) = status_error"
proof -
  from assms(3) have "handleOpenAIEvent a now e s = on_error_event e s"
    by (simp add: handleOpenAIEvent_def)
  with tracked_on_error_event [OF assms(1,2)] show ?thesis
    by simp
qed

text \<open>
  C3, as the code has it. An event handler keeps the identifier of every message and
  changes no message but the one tracked by \<open>currentAIResponseRef\<close>. The tracked message
  gets status \<open>receiving\<close> from a text or transcript delta that is not empty, \<open>completed\<close>
  from \<open>response.text.done\<close> and \<open>response.audio_transcript.done\<close> with a text that is not
  empty and from \<open>response.done\<close>, and \<open>error\<close> from \<open>error\<close>, whatever its status was; every
  other event leaves it as it is. \<open>response.done\<close> and \<open>error\<close> end the tracking.
  \<open>sendTextMessage\<close> changes no message with another identifier than the one it generated,
  and leaves the message it appended \<open>sent\<close> if both frames were accepted and \<open>error\<close>
  otherwise. A message that is not tracked is never changed again by any later calls, as
  long as the generated identifiers are fresh.
\<close>

theorem status_changes_only_while_tracked:
  "(\<forall>i < length (messages s).
       msg_id (messages (handleOpenAIEvent a now e s) ! i) = msg_id (messages s ! i)
     \<and> (\<not> tracked s (messages s ! i) \<longrightarrow>
           messages (handleOpenAIEvent a now e s) ! i = messages s ! i)
     \<and> (tracked s (messages s ! i) \<and>
          (ev_type e = ''response.text.delta'' \<or> ev_type e = ''response.audio_transcript.delta'')
          \<and> ev_delta e \<noteq> None \<and> ev_delta e \<noteq> Some [] \<longrightarrow>
           msg_status (messages (handleOpenAIEvent a now e s) ! i) = status_receiving)
     \<and> (tracked s (messages s ! i) \<and> ev_type e = ''response.text.done''
          \<and> ev_text e \<noteq> None \<and> ev_text e \<noteq> Some [] \<longrightarrow>
           msg_status (messages (handleOpenAIEvent a now e s) ! i) = status_completed)
     \<and> (tracked s (messages s ! i) \<and> ev_type e = ''response.audio_transcript.done''
          \<and> ev_transcript e \<noteq> None \<and> ev_transcript e \<noteq> Some [] \<longrightarrow>
           msg_status (messages (handleOpenAIEvent a now e s) ! i) = status_completed)
     \<and> (tracked s (messages s ! i) \<and> ev_type e = ''response.done'' \<longrightarrow>
           msg_status (messages (handleOpenAIEvent a now e s) ! i) = status_completed)
     \<and> (tracked s (messages s ! i) \<and> ev_type e = ''error'' \<longrightarrow>
           msg_status (messages (handleOpenAIEvent a now e s) ! i) = status_error)
     \<and> (\<not> ((ev_type e = ''response.text.delta'' \<or> ev_type e = ''response.audio_transcript.delta'')
              \<and> ev_delta e \<noteq> None \<and> ev_delta e \<noteq> Some [])
         \<and> \<not> (ev_type e = ''response.text.done'' \<and> ev_text e \<noteq> None \<and> ev_text e \<noteq> Some [])
         \<and> \<not> (ev_type e = ''response.audio_transcript.done''
                \<and> ev_transcript e \<noteq> None \<and> ev_transcript e \<noteq> Some [])
         \<and> ev_type e \<noteq> ''response.done'' \<and> ev_type e \<noteq> ''error'' \<longrightarrow>
           messages (handleOpenAIEvent a now e s) ! i = messages s ! i))
   \<and> (ev_type e = ''response.done'' \<or> ev_type e = ''error'' \<longrightarrow>
        currentAIResponseRef (handleOpenAIEvent a now e s) = None)
   \<and> (\<forall>i < length (messages s). msg_id (messages s ! i) \<noteq> mid \<longrightarrow>
        messages (sendTextMessage f mid now' body s) ! i = messages s ! i)
   \<and> (trim body \<noteq> [] \<and> length body \<le> 1000 \<longrightarrow>
        msg_status (last (messages (sendTextMessage f mid now' body s)))
          = (if f \<lparr>wsm_payload = ConversationItemCreate (trim body), wsm_timestamp = now'\<rparr>
                  = SendOk
                \<and> f \<lparr>wsm_payload = ResponseCreate [''text''], wsm_timestamp = now'\<rparr> = SendOk
             then status_sent else status_error))
   \<and> (\<forall>i < length (messages s).
        \<not> tracked s (messages s ! i) \<and> fresh_ids calls (map msg_id (messages s)) \<longrightarrow>
        i < length (messages (hook_run calls s))
        \<and> messages (hook_run calls s) ! i = messages s ! i)"
proof -
  have st: "message_step a s (handleOpenAIEvent a now e s)"
    by (rule step_handleOpenAIEvent)
  have 1: "\<forall>i < length (messages s).
       msg_id (messages (handleOpenAIEvent a now e s) ! i) = msg_id (messages s ! i)
     \<and> (\<not> tracked s (messages s ! i) \<longrightarrow>
           messages (handleOpenAIEvent a now e s) ! i = messages s ! i)
     \<and> (tracked s (messages s ! i) \<and>
          (ev_type e = ''response.text.delta'' \<or> ev_type e = ''response.audio_transcript.delta'')
          \<and> ev_delta e \<noteq> None \<and> ev_delta e \<noteq> Some [] \<longrightarrow>
           msg_status (messages (handleOpenAIEvent a now e s) ! i) = status_receiving)
     \<and> (tracked s (messages s ! i) \<and> ev_type e = ''response.text.done''
          \<and> ev_text e \<noteq> None \<and> ev_text e \<noteq> Some [] \<longrightarrow>
           msg_status (messages (handleOpenAIEvent a now e s) ! i) = status_completed)
     \<and> (tracked s (messages s ! i) \<and> ev_type e = ''response.audio_transcript.done''
          \<and> ev_transcript e \<noteq> None \<and> ev_transcript e \<noteq> Some [] \<longrightarrow>
           msg_status (messages (handleOpenAIEvent a now e s) ! i) = status_completed)
     \<and> (tracked s (messages s ! i) \<and> ev_type e = ''response.done'' \<longrightarrow>
           msg_status (messages (handleOpenAIEvent a now e s) ! i) = status_completed)
     \<and> (tracked s (messages s ! i) \<and> ev_type e = ''error'' \<longrightarrow>
           msg_status (messages (handleOpenAIEvent a now e s) ! i) = status_error)
     \<and> (\<not> ((ev_type e = ''response.text.delta'' \<or> ev_type e = ''response.audio_transcript.delta'')
              \<and> ev_delta e \<noteq> None \<and> ev_delta e \<noteq> Some [])
         \<and> \<not> (ev_type e = ''response.text.done'' \<and> ev_text e \<noteq> None \<and> ev_text e \<noteq> Some [])
         \<and> \<not> (ev_type e = ''response.audio_transcript.done''
                \<and> ev_transcript e \<noteq> None \<and> ev_transcript e \<noteq> Some [])
         \<and> ev_type e \<noteq> ''response.done'' \<and> ev_type e \<noteq> ''error'' \<longrightarrow>
           messages (handleOpenAIEvent a now e s) ! i = messages s ! i)"
  proof (intro allI impI)
    fix i
    assume i: "i < length (messages s)"
    have c1: "msg_id (messages (handleOpenAIEvent a now e s) ! i) = msg_id (messages s ! i)"
      using message_step_status [OF st i] by (rule conjunct1)
    have c2: "\<not> tracked s (messages s ! i) \<longrightarrow>
           messages (handleOpenAIEvent a now e s) ! i = messages s ! i"
      using message_step_untracked [OF st i] by (rule impI)
    have c3: "tracked s (messages s ! i) \<and>
          (ev_type e = ''response.text.delta'' \<or> ev_type e = ''response.audio_transcript.delta'')
          \<and> ev_delta e \<noteq> None \<and> ev_delta e \<noteq> Some [] \<longrightarrow>
           msg_status (messages (handleOpenAIEvent a now e s) ! i) = status_receiving"
    proof (rule impI, (erule conjE)+)
      assume "tracked s (messages s ! i)"
        and "ev_type e = ''response.text.delta'' \<or> ev_type e = ''response.audio_transcript.delta''"
        and "ev_delta e \<noteq> None" and "ev_delta e \<noteq> Some []"
      then show "msg_status (messages (handleOpenAIEvent a now e s) ! i) = status_receiving"
        by (rule handle_delta_status [OF i])
    qed
    have c4: "tracked s (messages s ! i) \<and> ev_type e = ''response.text.done''
          \<and> ev_text e \<noteq> None \<and> ev_text e \<noteq> Some [] \<longrightarrow>
           msg_status (messages (handleOpenAIEvent a now e s) ! i) = status_completed"
    proof (rule impI, (erule conjE)+)
      assume "tracked s (messages s ! i)" and "ev_type e = ''response.text.done''"
        and "ev_text e \<noteq> None" and "ev_text e \<noteq> Some []"
      then show "msg_status (messages (handleOpenAIEvent a now e s) ! i) = status_completed"
        by (rule handle_text_done_status [OF i])
    qed
    have c5: "tracked s (messages s ! i) \<and> ev_type e = ''response.audio_transcript.done''
          \<and> ev_transcript e \<noteq> None \<and> ev_transcript e \<noteq> Some [] \<longrightarrow>
           msg_status (messages (handleOpenAIEvent a now e s) ! i) = status_completed"
    proof (rule impI, (erule conjE)+)
      assume "tracked s (messages s ! i)" and "ev_type e = ''response.audio_transcript.done''"
        and "ev_transcript e \<noteq> None" and "ev_transcript e \<noteq> Some []"
      then show "msg_status (messages (handleOpenAIEvent a now e s) ! i) = status_completed"
        by (rule handle_transcript_done_status [OF i])
    qed
    have c6: "tracked s (messages s ! i) \<and> ev_type e = ''response.done'' \<longrightarrow>
           msg_status (messages (handleOpenAIEvent a now e s) ! i) = status_completed"
    proof (rule impI, erule conjE)
      assume "tracked s (messages s ! i)" and "ev_type e = ''response.done''"
      then show "msg_status (messages (handleOpenAIEvent a now e s) ! i) = status_completed"
        by (rule handle_response_done_status [OF i])
    qed
    have c7: "tracked s (messages s ! i) \<and> ev_type e = ''error'' \<longrightarrow>
           msg_status (messages (handleOpenAIEvent a now e s) ! i) = status_error"
    proof (rule impI, erule conjE)
      assume "tracked s (messages s ! i)" and "ev_type e = ''error''"
      then show "msg_status (messages (handleOpenAIEvent a now e s) ! i) = status_error"
        by (rule handle_error_status [OF i])
    qed
    have c8: "\<not> ((ev_type e = ''response.text.delta'' \<or> ev_type e = ''response.audio_transcript.delta'')
              \<and> ev_delta e \<noteq> None \<and> ev_delta e \<noteq> Some [])
         \<and> \<not> (ev_type e = ''response.text.done'' \<and> ev_text e \<noteq> None \<and> ev_text e \<noteq> Some [])
         \<and> \<not> (ev_type e = ''response.audio_transcript.done''
                \<and> ev_transcript e \<noteq> None \<and> ev_transcript e \<noteq> Some [])
         \<and> ev_type e \<noteq> ''response.done'' \<and> ev_type e \<noteq> ''error'' \<longrightarrow>
           messages (handleOpenAIEvent a now e s) ! i = messages s ! i"
    proof (rule impI, (erule conjE)+)
      assume "\<not> ((ev_type e = ''response.text.delta'' \<or> ev_type e = ''response.audio_transcript.delta'')
              \<and> ev_delta e \<noteq> None \<and> ev_delta e \<noteq> Some [])"
        and "\<not> (ev_type e = ''response.text.done'' \<and> ev_text e \<noteq> None \<and> ev_text e \<noteq> Some [])"
        and "\<not> (ev_type e = ''response.audio_transcript.done''
                \<and> ev_transcript e \<noteq> None \<and> ev_transcript e \<noteq> Some [])"
        and "ev_type e \<noteq> ''response.done''" and "ev_type e \<noteq> ''error''"
      then show "messages (handleOpenAIEvent a now e s) ! i = messages s ! i"
        by (rule handleOpenAIEvent_no_write [OF i])
    qed
    show "msg_id (messages (handleOpenAIEvent a now e s) ! i) = msg_id (messages s ! i)
     \<and> (\<not> tracked s (messages s ! i) \<longrightarrow>
           messages (handleOpenAIEvent a now e s) ! i = messages s ! i)
     \<and> (tracked s (messages s ! i) \<and>
          (ev_type e = ''response.text.delta'' \<or> ev_type e = ''response.audio_transcript.delta'')
          \<and> ev_delta e \<noteq> None \<and> ev_delta e \<noteq> Some [] \<longrightarrow>
           msg_status (messages (handleOpenAIEvent a now e s) ! i) = status_receiving)
     \<and> (tracked s (messages s ! i) \<and> ev_type e = ''response.text.done''
          \<and> ev_text e \<noteq> None \<and> ev_text e \<noteq> Some [] \<longrightarrow>
           msg_status (messages (handleOpenAIEvent a now e s) ! i) = status_completed)
     \<and> (tracked s (messages s ! i) \<and> ev_type e = ''response.audio_transcript.done''
          \<and> ev_transcript e \<noteq> None \<and> ev_transcript e \<noteq> Some [] \<longrightarrow>
           msg_status (messages (handleOpenAIEvent a now e s) ! i) = status_completed)
     \<and> (tracked s (messages s ! i) \<and> ev_type e = ''response.done'' \<longrightarrow>
           msg_status (messages (handleOpenAIEvent a now e s) ! i) = status_completed)
     \<and> (tracked s (messages s ! i) \<and> ev_type e = ''error'' \<longrightarrow>
           msg_status (messages (handleOpenAIEvent a now e s) ! i) = status_error)
     \<and> (\<not> ((ev_type e = ''response.text.delta'' \<or> ev_type e = ''response.audio_transcript.delta'')
              \<and> ev_delta e \<noteq> None \<and> ev_delta e \<noteq> Some [])
         \<and> \<not> (ev_type e = ''response.text.done'' \<and> ev_text e \<noteq> None \<and> ev_text e \<noteq> Some [])
         \<and> \<not> (ev_type e = ''response.audio_transcript.done''
                \<and> ev_transcript e \<noteq> None \<and> ev_transcript e \<noteq> Some [])
         \<and> ev_type e \<noteq> ''response.done'' \<and> ev_type e \<noteq> ''error'' \<longrightarrow>
           messages (handleOpenAIEvent a now e s) ! i = messages s ! i)"
      by (intro conjI c1 c2 c3 c4 c5 c6 c7 c8)
  qed
  have 2: "ev_type e = ''response.done'' \<or> ev_type e = ''error'' \<longrightarrow>
        currentAIResponseRef (handleOpenAIEvent a now e s) = None"
    using release_handleOpenAIEvent [of e a now s] by blast
  have 3: "\<forall>i < length (messages s). msg_id (messages s ! i) \<noteq> mid \<longrightarrow>
        messages (sendTextMessage f mid now' body s) ! i = messages s ! i"
    using sendTextMessage_others [of _ s mid f now' body] by blast
  have 4: "trim body \<noteq> [] \<and> length body \<le> 1000 \<longrightarrow>
        msg_status (last (messages (sendTextMessage f mid now' body s)))
          = (if f \<lparr>wsm_payload = ConversationItemCreate (trim body), wsm_timestamp = now'\<rparr>
                  = SendOk
                \<and> f \<lparr>wsm_payload = ResponseCreate [''text''], wsm_timestamp = now'\<rparr> = SendOk
             then status_sent else status_error)"
    using sendTextMessage_final_status [of body f mid now' s] by blast
  have 5: "\<forall>i < length (messages s).
        \<not> tracked s (messages s ! i) \<and> fresh_ids calls (map msg_id (messages s)) \<longrightarrow>
        i < length (messages (hook_run calls s))
        \<and> messages (hook_run calls s) ! i = messages s ! i"
  proof (intro allI impI)
    fix i
    assume i: "i < length (messages s)"
      and h: "\<not> tracked s (messages s ! i) \<and> fresh_ids calls (map msg_id (messages s))"
    from i have "msg_id (messages s ! i) \<in> set (map msg_id (messages s))"
      by simp
    with i h show "i < length (messages (hook_run calls s))
        \<and> messages (hook_run calls s) ! i = messages s ! i"
      by (intro hook_run_frozen [of i s "map msg_id (messages s)" calls]) simp_all
  qed
  show ?thesis
    by (intro conjI 1 2 3 4 5)
qed

theorem status_changes_only_while_tracked_witness:
  "messages (hook_run
      [Event ''ai_2'' 4 ((bare_event ''response.text.delta'')\<lparr>ev_delta := Some [0x21]\<rparr>),
       Event ''ai_3'' 5 (bare_event ''error''),
       SendText (\<lambda>m. SendOk) ''user_1'' 6 [0x68]]
      (hook_run
        [Event ''ai_1'' 1 assistant_item_added,
         Event ''ai_1x'' 2 ((bare_event ''response.text.done'')\<lparr>ev_text := Some [0x68, 0x69]\<rparr>),
         Event ''ai_1y'' 3 (bare_event ''response.done'')]
        hook_initial)) ! 0
   = \<lparr>msg_id = ''ai_1'', content = [0x68, 0x69], msg_sender = ai, msg_timestamp = 1,
       msg_status = status_completed\<rparr>
   \<and> msg_status (messages (handleOpenAIEvent ''ai_2'' 2 (bare_event ''response.done'')
        (hook_run [Event ''ai_1'' 1 assistant_item_added] hook_initial)) ! 0) = status_completed
   \<and> msg_status (messages (handleOpenAIEvent ''ai_2'' 2 (bare_event ''error'')
        (hook_run [Event ''ai_1'' 1 assistant_item_added] hook_initial)) ! 0) = status_error
   \<and> messages (handleOpenAIEvent ''ai_2'' 2 (bare_event ''response.text.done'')
        (hook_run [Event ''ai_1'' 1 assistant_item_added] hook_initial)) ! 0
      = \<lparr>msg_id = ''ai_1'', content = [], msg_sender = ai, msg_timestamp = 1,
          msg_status = status_receiving\<rparr>"
proof -
  define s0 where "s0 = hook_run
        [Event ''ai_1'' 1 assistant_item_added,
         Event ''ai_1x'' 2 ((bare_event ''response.text.done'')\<lparr>ev_text := Some [0x68, 0x69]\<rparr>),
         Event ''ai_1y'' 3 (bare_event ''response.done'')]
        hook_initial"
  define calls where "calls =
      [Event ''ai_2'' 4 ((bare_event ''response.text.delta'')\<lparr>ev_delta := Some [0x21]\<rparr>),
       Event ''ai_3'' 5 (bare_event ''error''),
       SendText (\<lambda>m. SendOk) ''user_1'' 6 [0x68]]"
  define s1 where "s1 = hook_run [Event ''ai_1'' 1 assistant_item_added] hook_initial"
  have m: "messages s0 = [\<lparr>msg_id = ''ai_1'', content = [0x68, 0x69], msg_sender = ai,
                            msg_timestamp = 1, msg_status = status_completed\<rparr>]"
    and c: "currentAIResponseRef s0 = None"
    by (simp_all add: s0_def hook_eval)
  from c have nt: "\<not> tracked s0 (messages s0 ! 0)"
    by (simp add: tracked_def)
  from m have fr: "fresh_ids calls (map msg_id (messages s0))"
    by (simp add: calls_def)
  from m have l: "0 < length (messages s0)"
    by simp
  note frozen = status_changes_only_while_tracked [of s0 _ _ _ _ _ _ _ calls,
      THEN conjunct2, THEN conjunct2, THEN conjunct2, THEN conjunct2, THEN spec, of 0]
  from frozen l nt fr have "messages (hook_run calls s0) ! 0 = messages s0 ! 0"
    by simp
  with m have A: "messages (hook_run calls s0) ! 0
      = \<lparr>msg_id = ''ai_1'', content = [0x68, 0x69], msg_sender = ai, msg_timestamp = 1,
          msg_status = status_completed\<rparr>"
    by simp
  have m1: "messages s1 = [\<lparr>msg_id = ''ai_1'', content = [], msg_sender = ai,
                            msg_timestamp = 1, msg_status = status_receiving\<rparr>]"
    and c1: "currentAIResponseRef s1
       = Some \<lparr>cur_id = ''ai_1'', cur_content = [], cur_responseId = ''resp_1'',
               cur_itemId = ''item_1''\<rparr>"
    by (simp_all add: s1_def hook_eval)
  from m1 c1 have t1: "tracked s1 (messages s1 ! 0)"
    by (simp add: tracked_def)
  from m1 have l1: "0 < length (messages s1)"
    by simp
  note ev = status_changes_only_while_tracked [of s1 "''ai_2''" 2 _ _ _ _ _ "[]",
      THEN conjunct1, THEN spec, of 0, THEN mp, OF l1]
  have t: "ev_type (bare_event ''response.done'') = ''response.done''"
    "ev_type (bare_event ''error'') = ''error''"
    by (simp_all add: bare_event_def)
  from ev [of "bare_event ''response.done''", THEN conjunct2, THEN conjunct2, THEN conjunct2,
      THEN conjunct2, THEN conjunct2, THEN conjunct1] t1 t(1)
  have B: "msg_status (messages (handleOpenAIEvent ''ai_2'' 2 (bare_event ''response.done'') s1) ! 0)
      = status_completed"
    by blast
  from ev [of "bare_event ''error''", THEN conjunct2, THEN conjunct2, THEN conjunct2,
      THEN conjunct2, THEN conjunct2, THEN conjunct2, THEN conjunct1] t1 t(2)
  have C: "msg_status (messages (handleOpenAIEvent ''ai_2'' 2 (bare_event ''error'') s1) ! 0)
      = status_error"
    by blast
  have "messages (handleOpenAIEvent ''ai_2'' 2 (bare_event ''response.text.done'') s1) ! 0
      = messages s1 ! 0"
    by (rule ev [of "bare_event ''response.text.done''", THEN conjunct2, THEN conjunct2,
        THEN conjunct2, THEN conjunct2, THEN conjunct2, THEN conjunct2, THEN conjunct2, THEN mp])
      (simp add: bare_event_def)
  with m1 have D: "messages (handleOpenAIEvent ''ai_2'' 2 (bare_event ''response.text.done'') s1) ! 0
      = \<lparr>msg_id = ''ai_1'', content = [], msg_sender = ai, msg_timestamp = 1,
          msg_status = status_receiving\<rparr>"
    by simp
  from A B C D show ?thesis
    unfolding s0_def calls_def s1_def by (intro conjI)
qed

text \<open>
  C9. If the trimmed text is empty or the text has more than 1000 code units,
  \<open>sendTextMessage\<close> leaves the message list as it was and its only call to the outside is
  the error callback (no frame is handed to the socket). Otherwise its first two calls to
  the outside are the message callback of \<open>addMessage\<close>, for the one appended user message
  with status \<open>sending\<close> and the trimmed text as content, and only then the first frame; the
  message list afterwards is the old one plus that message, whose status has become \<open>sent\<close>
  or \<open>error\<close>.
\<close>

theorem sendTextMessage_validation:
  "(trim body = [] \<or> length body > 1000 \<longrightarrow>
      messages (sendTextMessage f mid now body s) = messages s
      \<and> (\<exists>msg. effects (sendTextMessage f mid now body s) = effects s @ [OnErrorText msg]))
   \<and> (trim body \<noteq> [] \<and> length body \<le> 1000 \<longrightarrow>
      (\<exists>st rest. st \<in> {status_sent, status_error}
        \<and> messages (sendTextMessage f mid now body s)
            = map (\<lambda>m. if msg_id m = mid then m\<lparr>msg_status := st\<rparr> else m)
                (messages s @ [\<lparr>msg_id = mid, content = trim body, msg_sender = user,
                                 msg_timestamp = now, msg_status = status_sending\<rparr>])
        \<and> effects (sendTextMessage f mid now body s)
            = effects s @ OnMessage \<lparr>msg_id = mid, content = trim body, msg_sender = user,
                                     msg_timestamp = now, msg_status = status_sending\<rparr>
                # Sent \<lparr>wsm_payload = ConversationItemCreate (trim body), wsm_timestamp = now\<rparr>
                # rest))"
proof -
  have a: "trim body = [] \<or> length body > 1000 \<longrightarrow>
      messages (sendTextMessage f mid now body s) = messages s
      \<and> (\<exists>msg. effects (sendTextMessage f mid now body s) = effects s @ [OnErrorText msg])"
    using sendTextMessage_invalid [of body f mid now s] by blast
  have b: "trim body \<noteq> [] \<and> length body \<le> 1000 \<longrightarrow>
      (\<exists>st rest. st \<in> {status_sent, status_error}
        \<and> messages (sendTextMessage f mid now body s)
            = map (\<lambda>m. if msg_id m = mid then m\<lparr>msg_status := st\<rparr> else m)
                (messages s @ [\<lparr>msg_id = mid, content = trim body, msg_sender = user,
                                 msg_timestamp = now, msg_status = status_sending\<rparr>])
        \<and> effects (sendTextMessage f mid now body s)
            = effects s @ OnMessage \<lparr>msg_id = mid, content = trim body, msg_sender = user,
                                     msg_timestamp = now, msg_status = status_sending\<rparr>
                # Sent \<lparr>wsm_payload = ConversationItemCreate (trim body), wsm_timestamp = now\<rparr>
                # rest)"
  proof
    assume "trim body \<noteq> [] \<and> length body \<le> 1000"
    then have "trim body \<noteq> []" and "length body \<le> 1000"
      by simp_all
    from sendTextMessage_valid [OF this, of f mid now s]
    show "\<exists>st rest. st \<in> {status_sent, status_error}
        \<and> messages (sendTextMessage f mid now body s)
            = map (\<lambda>m. if msg_id m = mid then m\<lparr>msg_status := st\<rparr> else m)
                (messages s @ [\<lparr>msg_id = mid, content = trim body, msg_sender = user,
                                 msg_timestamp = now, msg_status = status_sending\<rparr>])
        \<and> effects (sendTextMessage f mid now body s)
            = effects s @ OnMessage \<lparr>msg_id = mid, content = trim body, msg_sender = user,
                                     msg_timestamp = now, msg_status = status_sending\<rparr>
                # Sent \<lparr>wsm_payload = ConversationItemCreate (trim body), wsm_timestamp = now\<rparr>
                # rest"
      by blast
  qed
  from a b show ?thesis
    by blast
qed

lemma trim_example: "trim [0x20, 0x68, 0x69, 0x20] = [0x68, 0x69]"
  by (simp add: trim_def is_white_def)

lemma trim_blank_example: "trim [0x20, 0x3000] = []"
  by (simp add: trim_def is_white_def)

theorem sendTextMessage_validation_witness:
  "messages (sendTextMessage (\<lambda>m. SendOk) ''user_1'' 3 [0x20, 0x3000] hook_initial) = []
   \<and> (\<exists>msg. effects (sendTextMessage (\<lambda>m. SendOk) ''user_1'' 3 [0x20, 0x3000] hook_initial)
        = [OnErrorText msg])
   \<and> (\<exists>st rest. st \<in> {status_sent, status_error}
        \<and> messages (sendTextMessage (\<lambda>m. SendOk) ''user_1'' 3 [0x20, 0x68, 0x69, 0x20] hook_initial)
            = [\<lparr>msg_id = ''user_1'', content = [0x68, 0x69], msg_sender = user,
                 msg_timestamp = 3, msg_status = st\<rparr>]
        \<and> effects (sendTextMessage (\<lambda>m. SendOk) ''user_1'' 3 [0x20, 0x68, 0x69, 0x20] hook_initial)
            = OnMessage \<lparr>msg_id = ''user_1'', content = [0x68, 0x69], msg_sender = user,
                          msg_timestamp = 3, msg_status = status_sending\<rparr>
                # Sent \<lparr>wsm_payload = ConversationItemCreate [0x68, 0x69], wsm_timestamp = 3\<rparr>
                # rest)"
proof -
  have "trim [0x20, 0x3000] = [] \<or> length [0x20, 0x3000 :: 16 word] > 1000"
    by (simp add: trim_blank_example)
  with sendTextMessage_validation [of "[0x20, 0x3000]" "\<lambda>m. SendOk" "''user_1''" 3 hook_initial]
  have a: "messages (sendTextMessage (\<lambda>m. SendOk) ''user_1'' 3 [0x20, 0x3000] hook_initial)
        = messages hook_initial
      \<and> (\<exists>msg. effects (sendTextMessage (\<lambda>m. SendOk) ''user_1'' 3 [0x20, 0x3000] hook_initial)
            = effects hook_initial @ [OnErrorText msg])"
    by blast
  have "trim [0x20, 0x68, 0x69, 0x20] \<noteq> [] \<and> length [0x20, 0x68, 0x69, 0x20 :: 16 word] \<le> 1000"
    by (simp add: trim_example)
  with sendTextMessage_validation
    [of "[0x20, 0x68, 0x69, 0x20]" "\<lambda>m. SendOk" "''user_1''" 3 hook_initial]
  have b: "\<exists>st rest. st \<in> {status_sent, status_error}
        \<and> messages (sendTextMessage (\<lambda>m. SendOk) ''user_1'' 3 [0x20, 0x68, 0x69, 0x20] hook_initial)
            = map (\<lambda>m. if msg_id m = ''user_1'' then m\<lparr>msg_status := st\<rparr> else m)
                (messages hook_initial
                 @ [\<lparr>msg_id = ''user_1'', content = trim [0x20, 0x68, 0x69, 0x20],
                      msg_sender = user, msg_timestamp = 3, msg_status = status_sending\<rparr>])
        \<and> effects (sendTextMessage (\<lambda>m. SendOk) ''user_1'' 3 [0x20, 0x68, 0x69, 0x20] hook_initial)
            = effects hook_initial
              @ OnMessage \<lparr>msg_id = ''user_1'', content = trim [0x20, 0x68, 0x69, 0x20],
                            msg_sender = user, msg_timestamp = 3, msg_status = status_sending\<rparr>
                # Sent \<lparr>wsm_payload = ConversationItemCreate (trim [0x20, 0x68, 0x69, 0x20]),
                         wsm_timestamp = 3\<rparr>
                # rest"
    by blast
  from a b show ?thesis
    by (simp add: hook_initial_def trim_example)
qed

section \<open>Properties of the audio pipeline\<close>

lemma binary_string_id: "binary_string bytes = bytes"
proof (induction bytes rule: binary_string.induct)
  case (1 bytes)
  show ?case
  proof (cases "bytes = []")
    case True
    then show ?thesis by simp
  next
    case False
    with 1 have "binary_string (drop 32768 bytes) = drop 32768 bytes"
      by simp
    with False show ?thesis
      by (subst binary_string.simps) simp
  qed
qed

lemma uint_byte: "uint (word_of_int k :: 8 word) = k mod 256"
  by (simp add: uint_word_of_int take_bit_eq_mod)

lemma getInt16_setInt16:
  assumes "- 32768 \<le> js_trunc v" and "js_trunc v \<le> 32767"
  shows "setInt16 v = [word_of_int (js_trunc v mod 65536 mod 256), word_of_int (js_trunc v mod 65536 div 256)]
     \<and> getInt16 (word_of_int (js_trunc v mod 65536 mod 256)) (word_of_int (js_trunc v mod 65536 div 256))
         = js_trunc v"
proof -
  define t where "t = js_trunc v"
  define u where "u = t mod 65536"
  have u: "0 \<le> u" "u < 65536"
    by (simp_all add: u_def)
  then have hi: "(u div 256) mod 256 = u div 256"
    by simp
  have "uint (word_of_int (u mod 256) :: 8 word) + 256 * uint (word_of_int (u div 256) :: 8 word) = u"
    by (simp add: uint_byte hi)
  moreover have "(if u \<ge> 32768 then u - 65536 else u) = t"
  proof (cases "0 \<le> t")
    case True
    with assms have "u = t"
      by (simp add: u_def t_def)
    with assms show ?thesis
      by (simp add: t_def)
  next
    case False
    from False assms have r: "0 \<le> t + 65536" "t + 65536 < 65536"
      by (simp_all add: t_def)
    have "(t + 65536) mod 65536 = t mod 65536"
      by simp
    moreover from r have "(t + 65536) mod 65536 = t + 65536"
      by (rule mod_pos_pos_trivial)
    ultimately have "u = t + 65536"
      unfolding u_def by (simp only:)
    with False assms show ?thesis
      by (simp add: t_def)
  qed
  ultimately show ?thesis
    unfolding u_def t_def setInt16_def getInt16_def Let_def by (auto split: if_splits)
qed

lemma clamp_sample_range: "- 1 \<le> clamp_sample x \<and> clamp_sample x \<le> 1"
  by (simp add: clamp_sample_def)

lemma js_trunc_pcmSample_range:
  "- 32768 \<le> js_trunc (pcmSample x) \<and> js_trunc (pcmSample x) \<le> 32767"
proof (cases "clamp_sample x < 0")
  case True
  define p where "p = clamp_sample x * 32768"
  from True clamp_sample_range [of x] have p: "- 32768 \<le> p" "p < 0"
    by (simp_all add: p_def)
  from p(1) have "- 32768 \<le> \<lceil>p\<rceil>"
    by (simp add: le_ceiling_iff)
  moreover from p(2) have "\<lceil>p\<rceil> \<le> 0"
    by (simp add: ceiling_le_iff)
  ultimately show ?thesis
    using True p by (simp add: pcmSample_def js_trunc_def Let_def p_def)
next
  case False
  define p where "p = clamp_sample x * 32767"
  from False clamp_sample_range [of x] have p: "0 \<le> p" "p \<le> 32767"
    by (simp_all add: p_def)
  from p(1) have "0 \<le> \<lfloor>p\<rfloor>"
    by simp
  moreover from p(2) have "\<lfloor>p\<rfloor> \<le> 32767"
    by (simp add: floor_le_iff)
  ultimately show ?thesis
    using False p by (simp add: pcmSample_def js_trunc_def Let_def p_def)
qed

lemma pcm_samples_setInt16:
  "pcm_samples (setInt16 (pcmSample x) @ rest)
     = (real_of_int (js_trunc (pcmSample x))
          / (if js_trunc (pcmSample x) < 0 then 32768 else 32767)) # pcm_samples rest"
  using js_trunc_pcmSample_range [of x] getInt16_setInt16 [of "pcmSample x"]
  by (simp add: Let_def)

lemma pcm_samples_pcm_bytes:
  "pcm_samples (pcm_bytes xs)
     = map (\<lambda>x. real_of_int (js_trunc (pcmSample x))
                   / (if js_trunc (pcmSample x) < 0 then 32768 else 32767)) xs"
proof (induction xs)
  case Nil
  then show ?case by (simp add: pcm_bytes_def)
next
  case (Cons x xs)
  have "pcm_bytes (x # xs) = setInt16 (pcmSample x) @ pcm_bytes xs"
    by (simp add: pcm_bytes_def)
  with Cons show ?case
    by (simp add: pcm_samples_setInt16)
qed

lemma length_pcm_bytes: "length (pcm_bytes xs) = 2 * length xs"
  by (induction xs) (simp_all add: pcm_bytes_def setInt16_def Let_def)

lemma sample_error:
  "\<bar>real_of_int (js_trunc (pcmSample x)) / (if js_trunc (pcmSample x) < 0 then 32768 else 32767)
     - clamp_sample x\<bar> < 1 / 32767"
proof (cases "clamp_sample x < 0")
  case True
  define c where "c = clamp_sample x"
  define t where "t = \<lceil>c * 32768\<rceil>"
  have t: "real_of_int t - 1 < c * 32768" "c * 32768 \<le> real_of_int t"
    using ceiling_correct [of "c * 32768"] by (simp_all add: t_def)
  from True have cn: "c < 0"
    by (simp add: c_def)
  then have "c * 32768 < 0"
    by simp
  then have "t \<le> 0"
    by (simp add: t_def ceiling_le_iff)
  from True have tr: "js_trunc (pcmSample x) = t"
    by (simp add: pcmSample_def js_trunc_def Let_def t_def c_def)
  show ?thesis
  proof (cases "t < 0")
    case True
    with t show ?thesis
      unfolding tr c_def [symmetric] by simp
  next
    case False
    with \<open>t \<le> 0\<close> have "t = 0"
      by simp
    with t cn show ?thesis
      unfolding tr c_def [symmetric] by simp
  qed
next
  case False
  define c where "c = clamp_sample x"
  define t where "t = \<lfloor>c * 32767\<rfloor>"
  have t: "real_of_int t \<le> c * 32767" "c * 32767 < real_of_int t + 1"
    using floor_correct [of "c * 32767"] by (simp_all add: t_def)
  from False have cn: "0 \<le> c"
    by (simp add: c_def)
  then have "0 \<le> t"
    by (simp add: t_def)
  from False have tr: "js_trunc (pcmSample x) = t"
    by (simp add: pcmSample_def js_trunc_def Let_def t_def c_def)
  from \<open>0 \<le> t\<close> t show ?thesis
    unfolding tr c_def [symmetric] by simp
qed

text \<open>
  C5, as the code has it. For a non-empty sequence of samples, if the base64 codec gives
  back the bytes that the encoder packed, then decoding what \<open>convertToPCM16\<close> produced
  succeeds, yields as many samples as were encoded, and each of them is within
  \<open>1 / 32767\<close> of the original sample clamped to \<open>[-1, 1]\<close>.
\<close>

theorem pcm16_round_trip:
  assumes "atob (btoa (pcm_bytes xs)) = Some (pcm_bytes xs)" and "xs \<noteq> []"
  shows "\<exists>ys. decodeAudioData atob (convertToPCM16 btoa xs) = Inr ys
    \<and> length ys = length xs
    \<and> (\<forall>i < length xs. \<bar>ys ! i - clamp_sample (xs ! i)\<bar> < 1 / 32767)"
proof -
  define dec where "dec = (\<lambda>x. real_of_int (js_trunc (pcmSample x))
                   / (if js_trunc (pcmSample x) < 0 then 32768 else 32767))"
  have ps: "pcm_samples (pcm_bytes xs) = map dec xs"
    unfolding dec_def by (rule pcm_samples_pcm_bytes)
  from assms(2) have "length xs \<noteq> 0"
    by simp
  then have nz: "(length (pcm_bytes xs) div 2 = 0) = False"
    by (simp add: length_pcm_bytes)
  have "convertToPCM16 btoa xs = btoa (pcm_bytes xs)"
    by (simp only: convertToPCM16_def binary_string_id)
  with assms(1) have "atob (convertToPCM16 btoa xs) = Some (pcm_bytes xs)"
    by (simp only:)
  then have d: "decodeAudioData atob (convertToPCM16 btoa xs) = Inr (map dec xs)"
    by (simp only: decodeAudioData_def option.case nz if_False ps)
  have b: "\<forall>i < length xs. \<bar>map dec xs ! i - clamp_sample (xs ! i)\<bar> < 1 / 32767"
  proof (intro allI impI)
    fix i
    assume "i < length xs"
    then have "map dec xs ! i = dec (xs ! i)"
      by (rule nth_map)
    then show "\<bar>map dec xs ! i - clamp_sample (xs ! i)\<bar> < 1 / 32767"
      unfolding dec_def by (simp only: sample_error)
  qed
  have l: "length (map dec xs) = length xs"
    by (rule length_map)
  from d l b show ?thesis
    by blast
qed

lemma pcm_bytes_example: "pcm_bytes [1 / 2, - (1 / 4)] = [0xFF, 0x3F, 0x00, 0xE0]"
  by (simp add: pcm_bytes_def setInt16_def pcmSample_def clamp_sample_def js_trunc_def
      Let_def)

lemma base64_example:
  "base64_decode (base64_encode [0xFF, 0x3F, 0x00, 0xE0]) = Some [0xFF, 0x3F, 0x00, 0xE0]"
  by code_simp

theorem pcm16_round_trip_witness:
  "\<exists>ys. decodeAudioData base64_decode (convertToPCM16 base64_encode [1 / 2, - (1 / 4)]) = Inr ys
    \<and> length ys = 2
    \<and> \<bar>ys ! 0 - 1 / 2\<bar> < 1 / 32767 \<and> \<bar>ys ! 1 - (- (1 / 4))\<bar> < 1 / 32767"
proof -
  have codec: "base64_decode (base64_encode (pcm_bytes [1 / 2, - (1 / 4)]))
      = Some (pcm_bytes [1 / 2, - (1 / 4)])"
    by (simp only: pcm_bytes_example base64_example)
  have ne: "[1 / 2, - (1 / 4) :: real] \<noteq> []"
    by simp
  from pcm16_round_trip [of base64_decode base64_encode "[1 / 2, - (1 / 4)]", OF codec ne]
  obtain ys where d: "decodeAudioData base64_decode
        (convertToPCM16 base64_encode [1 / 2, - (1 / 4)]) = Inr ys"
    and l: "length ys = length [1 / 2, - (1 / 4) :: real]"
    and b: "\<forall>i < length [1 / 2, - (1 / 4) :: real].
        \<bar>ys ! i - clamp_sample ([1 / 2, - (1 / 4)] ! i)\<bar> < 1 / 32767"
    by blast
  from b have "\<bar>ys ! 0 - clamp_sample ([1 / 2, - (1 / 4)] ! 0)\<bar> < 1 / 32767"
    by (elim allE [of _ 0]) simp
  then have b0: "\<bar>ys ! 0 - 1 / 2\<bar> < 1 / 32767"
    by (simp add: clamp_sample_def)
  from b have "\<bar>ys ! 1 - clamp_sample ([1 / 2, - (1 / 4)] ! 1)\<bar> < 1 / 32767"
    by (elim allE [of _ 1]) simp
  then have b1: "\<bar>ys ! 1 - (- (1 / 4))\<bar> < 1 / 32767"
    by (simp add: clamp_sample_def)
  from d l b0 b1 show ?thesis
    by (intro exI [of _ ys]) simp
qed

lemma pcm_bytes_two: "pcm_bytes [2] = [0xFF, 0x7F]"
  by (simp add: pcm_bytes_def setInt16_def pcmSample_def clamp_sample_def js_trunc_def
      Let_def)

lemma base64_two: "base64_decode (base64_encode [0xFF, 0x7F]) = Some [0xFF, 0x7F]"
  by code_simp

text \<open>
  C5, as the claim words it, fails: a sample outside \<open>[-1, 1]\<close> is clamped by the encoder,
  so the sample 2 comes back as 1, at distance 1 from the original.
\<close>

theorem out_of_range_sample_is_not_reproduced:
  "decodeAudioData base64_decode (convertToPCM16 base64_encode [2]) = Inr [1]
   \<and> \<not> \<bar>(1 :: real) - 2\<bar> < 1 / 32767"
proof -
  have "convertToPCM16 base64_encode [2] = base64_encode [0xFF, 0x7F]"
    by (simp only: convertToPCM16_def binary_string_id pcm_bytes_two)
  then have "decodeAudioData base64_decode (convertToPCM16 base64_encode [2])
      = (if length [0xFF, 0x7F :: 8 word] div 2 = 0 then Inl ''Failed to decode audio data''
         else Inr (pcm_samples [0xFF, 0x7F]))"
    by (simp only: decodeAudioData_def base64_two option.case)
  then show ?thesis
    by (simp add: getInt16_def Let_def)
qed

lemma cleanup_idem: "cleanup (cleanup s) = cleanup s"
  by (simp add: cleanup_def Let_def split: option.splits)






end
